theory Spec2Isabelle
  imports Complex_Main "HOL-Library.Word" "HOL-Library.Sublist"
begin

unbundle bit_operations_syntax

section \<open>Python values used by \<open>agento_video.py\<close>\<close>

text \<open>
  A Python \<open>str\<close> is modelled as a \<open>string\<close> holding its UTF-8 encoding, so that
  \<open>str.encode()\<close> is the map from characters to bytes. A character of the text is an
  ASCII byte, or a lead byte with the continuation bytes that follow it. A text with a
  code point that UTF-8 does not encode (a lone surrogate, for which \<open>str.encode()\<close>
  raises) is outside the model. A Python \<open>bytes\<close> object is a list of 8-bit words.
\<close>

type_synonym byte = "8 word"
type_synonym bytes = "byte list"

definition encode :: "string \<Rightarrow> bytes" where
  "encode s = map of_char s"

definition is_ascii :: "char \<Rightarrow> bool" where
  "is_ascii c \<longleftrightarrow> \<not> digit7 c"

definition is_continuation :: "char \<Rightarrow> bool" where
  "is_continuation c \<longleftrightarrow> digit7 c \<and> \<not> digit6 c"

text \<open>The characters of a text, each as its UTF-8 bytes.\<close>

fun utf8_chars :: "string \<Rightarrow> string list" where
  "utf8_chars [] = []"
| "utf8_chars (c # s) =
     (case utf8_chars s of
        [] \<Rightarrow> [[c]]
      | g # gs \<Rightarrow>
          if \<not> is_ascii c \<and> is_continuation (hd g) then (c # g) # gs
          else [c] # g # gs)"

text \<open>The code point of a character given by its UTF-8 bytes.\<close>

definition code_point :: "string \<Rightarrow> nat" where
  "code_point g =
     (case g of
        [] \<Rightarrow> 0
      | c # cs \<Rightarrow>
          foldl (\<lambda>n b. n * 64 + of_char b mod 64)
            (if cs = [] then of_char c
             else if length cs = 1 then of_char c mod 32
             else if length cs = 2 then of_char c mod 16
             else of_char c mod 8)
            cs)"

text \<open>
  What the interpreter's Unicode database decides is a parameter of the model:
  \<open>lower_full\<close> gives the lower-case text of a character that is not ASCII, from the
  text before it, the character and the text after it (the context matters for the
  capital sigma); \<open>printable\<close> tells whether \<open>repr\<close> shows a code point above 127 as
  it is. Every theorem holds for all tables.
\<close>

record unicode_tables =
  lower_full :: "string \<Rightarrow> string \<Rightarrow> string \<Rightarrow> string"
  printable :: "nat \<Rightarrow> bool"

definition lower_char :: "char \<Rightarrow> char" where
  "lower_char c =
     (case map_of (zip ''ABCDEFGHIJKLMNOPQRSTUVWXYZ'' ''abcdefghijklmnopqrstuvwxyz'') c of
        Some d \<Rightarrow> d
      | None \<Rightarrow> c)"

text \<open>
  \<open>s.lower()\<close>, character by character: an ASCII letter by the ASCII rule, any other
  character by the table; the continuation bytes belong to the lead byte before them.
\<close>

fun lower_from :: "unicode_tables \<Rightarrow> string \<Rightarrow> string \<Rightarrow> string" where
  "lower_from ud left [] = []"
| "lower_from ud left (c # s) =
     (if is_ascii c then lower_char c # lower_from ud (left @ [c]) s
      else if is_continuation c then lower_from ud (left @ [c]) s
      else lower_full ud left (c # takeWhile is_continuation s) (dropWhile is_continuation s)
           @ lower_from ud (left @ [c]) s)"

definition str_lower :: "unicode_tables \<Rightarrow> string \<Rightarrow> string" where
  "str_lower ud s = lower_from ud [] s"

text \<open>
  The white space of \<open>str.strip()\<close>: the characters for which \<open>str.isspace()\<close> holds,
  U+0009 to U+000D, U+001C to U+0020, U+0085, U+00A0, U+1680, U+2000 to U+200A, U+2028,
  U+2029, U+202F, U+205F and U+3000, each as its UTF-8 bytes.
\<close>

definition unicode_spaces :: "string list" where
  "unicode_spaces =
     [[CHR 0x09], [CHR 0x0A], [CHR 0x0B], [CHR 0x0C], [CHR 0x0D], [CHR 0x1C], [CHR 0x1D],
      [CHR 0x1E], [CHR 0x1F], [CHR 0x20], [CHR 0xC2, CHR 0x85], [CHR 0xC2, CHR 0xA0],
      [CHR 0xE1, CHR 0x9A, CHR 0x80], [CHR 0xE2, CHR 0x80, CHR 0x80],
      [CHR 0xE2, CHR 0x80, CHR 0x81], [CHR 0xE2, CHR 0x80, CHR 0x82],
      [CHR 0xE2, CHR 0x80, CHR 0x83], [CHR 0xE2, CHR 0x80, CHR 0x84],
      [CHR 0xE2, CHR 0x80, CHR 0x85], [CHR 0xE2, CHR 0x80, CHR 0x86],
      [CHR 0xE2, CHR 0x80, CHR 0x87], [CHR 0xE2, CHR 0x80, CHR 0x88],
      [CHR 0xE2, CHR 0x80, CHR 0x89], [CHR 0xE2, CHR 0x80, CHR 0x8A],
      [CHR 0xE2, CHR 0x80, CHR 0xA8], [CHR 0xE2, CHR 0x80, CHR 0xA9],
      [CHR 0xE2, CHR 0x80, CHR 0xAF], [CHR 0xE2, CHR 0x81, CHR 0x9F],
      [CHR 0xE3, CHR 0x80, CHR 0x80]]"

text \<open>The length of the entry of \<open>spaces\<close> that \<open>s\<close> starts with, 0 when there is none.\<close>

definition space_length :: "string list \<Rightarrow> string \<Rightarrow> nat" where
  "space_length spaces s =
     (case find (\<lambda>sp. sp \<noteq> [] \<and> prefix sp s) spaces of
        None \<Rightarrow> 0
      | Some sp \<Rightarrow> length sp)"

function strip_leading :: "string list \<Rightarrow> string \<Rightarrow> string" where
  "strip_leading spaces s =
     (if space_length spaces s = 0 then s
      else strip_leading spaces (drop (space_length spaces s) s))"
  by pat_completeness auto
termination
proof (relation "measure (\<lambda>(spaces, s). length s)")
  show "wf (measure (\<lambda>(spaces, s). length s))"
    by simp
next
  fix spaces :: "string list" and s :: string
  assume some: "space_length spaces s \<noteq> 0"
  then obtain sp where "find (\<lambda>sp. sp \<noteq> [] \<and> prefix sp s) spaces = Some sp"
    by (auto simp: space_length_def split: option.splits)
  then have "sp \<noteq> []" and "prefix sp s"
    by (auto simp: find_Some_iff)
  then have "s \<noteq> []"
    by auto
  with some show "((spaces, drop (space_length spaces s) s), (spaces, s))
      \<in> measure (\<lambda>(spaces, s). length s)"
    by simp
qed

definition str_lstrip :: "string \<Rightarrow> string" where
  "str_lstrip s = strip_leading unicode_spaces s"

definition str_rstrip :: "string \<Rightarrow> string" where
  "str_rstrip s = rev (strip_leading (map rev unicode_spaces) (rev s))"

definition str_strip :: "string \<Rightarrow> string" where
  "str_strip s = str_rstrip (str_lstrip s)"

text \<open>\<open>sub in s\<close> on two strings.\<close>

fun str_contains :: "string \<Rightarrow> string \<Rightarrow> bool" where
  "str_contains sub [] = (sub = [])"
| "str_contains sub (c # s) = (prefix sub (c # s) \<or> str_contains sub s)"

definition startswith :: "string \<Rightarrow> string \<Rightarrow> bool" where
  "startswith s p = prefix p s"

text \<open>\<open>s.split(sep)\<close> for a one-character separator: at least one field.\<close>

fun str_split :: "char \<Rightarrow> string \<Rightarrow> string list" where
  "str_split sep [] = [[]]"
| "str_split sep (c # s) =
     (if c = sep then [] # str_split sep s
      else (case str_split sep s of
              [] \<Rightarrow> [[c]]
            | f # fs \<Rightarrow> (c # f) # fs))"

text \<open>\<open>sep.join(xs)\<close>.\<close>

fun str_join :: "string \<Rightarrow> string list \<Rightarrow> string" where
  "str_join sep [] = []"
| "str_join sep [x] = x"
| "str_join sep (x # y # ys) = x @ sep @ str_join sep (y # ys)"

text \<open>\<open>s.rfind(c)\<close> as an option: the index of the last occurrence.\<close>

fun str_rfind :: "char \<Rightarrow> string \<Rightarrow> nat option" where
  "str_rfind c [] = None"
| "str_rfind c (x # s) =
     (case str_rfind c s of
        Some i \<Rightarrow> Some (Suc i)
      | None \<Rightarrow> (if x = c then Some 0 else None))"

text \<open>Decimal rendering of integers, as \<open>str(n)\<close> and \<open>f"{n}"\<close> give it.\<close>

fun show_nat :: "nat \<Rightarrow> string" where
  "show_nat n =
     (if n < 10 then [''0123456789'' ! n]
      else show_nat (n div 10) @ [''0123456789'' ! (n mod 10)])"

definition show_int :: "int \<Rightarrow> string" where
  "show_int i = (if i < 0 then CHR ''-'' # show_nat (nat (- i)) else show_nat (nat i))"

section \<open>Library models: \<open>pathlib\<close> on POSIX and \<open>urllib.parse\<close>\<close>

text \<open>
  A pure POSIX path is its root (\<open>''''\<close>, \<open>''/''\<close> or \<open>''//''\<close>) and its components;
  parsing drops empty and \<open>.\<close> components and keeps \<open>..\<close>.
\<close>

record path =
  root :: string
  parts :: "string list"

definition posix_root :: "string \<Rightarrow> string" where
  "posix_root s =
     (if startswith s ''//'' \<and> \<not> startswith s ''///'' then ''//''
      else if startswith s ''/'' then ''/''
      else '''')"

definition Path :: "string \<Rightarrow> path" where
  "Path s = \<lparr>root = posix_root s,
             parts = filter (\<lambda>p. p \<noteq> [] \<and> p \<noteq> ''.'') (str_split CHR ''/'' s)\<rparr>"

definition path_str :: "path \<Rightarrow> string" where
  "path_str p =
     (if root p = [] \<and> parts p = [] then ''.''
      else root p @ str_join ''/'' (parts p))"

definition is_absolute :: "path \<Rightarrow> bool" where
  "is_absolute p \<longleftrightarrow> root p \<noteq> []"

text \<open>\<open>p / s\<close>: an absolute right operand replaces the left one.\<close>

definition joinpath :: "path \<Rightarrow> string \<Rightarrow> path" where
  "joinpath p s =
     (if is_absolute (Path s) then Path s
      else p\<lparr>parts := parts p @ parts (Path s)\<rparr>)"

definition path_name :: "path \<Rightarrow> string" where
  "path_name p = (if parts p = [] then [] else last (parts p))"

definition path_stem :: "path \<Rightarrow> string" where
  "path_stem p =
     (let name = path_name p in
      case str_rfind CHR ''.'' name of
        None \<Rightarrow> name
      | Some i \<Rightarrow> (if 0 < i \<and> i < length name - 1 then take i name else name))"

text \<open>
  \<open>p.relative_to(base)\<close>: the components of \<open>p\<close> below \<open>base\<close>, or \<open>None\<close> where
  Python raises \<open>ValueError\<close>.
\<close>

definition relative_to :: "path \<Rightarrow> path \<Rightarrow> path option" where
  "relative_to p base =
     (if root p = root base \<and> prefix (parts base) (parts p)
      then Some \<lparr>root = [], parts = drop (length (parts base)) (parts p)\<rparr>
      else None)"

text \<open>
  \<open>urlparse(url).path\<close> for a URL that starts with \<open>http://\<close> or \<open>https://\<close>: tabs
  and line breaks are removed, the authority ends at the first of \<open>/ ? #\<close>, then the
  fragment, the query and the parameters of the last segment are cut off. Authorities
  that make \<open>urlparse\<close> raise (unbalanced brackets) are outside this model.
\<close>

definition url_unsafe :: "char \<Rightarrow> bool" where
  "url_unsafe c \<longleftrightarrow> c \<in> set [CHR 0x09, CHR 0x0D, CHR 0x0A]"

definition before_char :: "char \<Rightarrow> string \<Rightarrow> string" where
  "before_char c s = takeWhile (\<lambda>x. x \<noteq> c) s"

definition splitparams :: "string \<Rightarrow> string" where
  "splitparams u =
     (case str_rfind CHR ''/'' u of
        Some i \<Rightarrow> take i u @ before_char CHR '';'' (drop i u)
      | None \<Rightarrow> before_char CHR '';'' u)"

definition urlparse_path :: "string \<Rightarrow> string" where
  "urlparse_path url =
     (let u = filter (\<lambda>c. \<not> url_unsafe c) url;
          after_scheme = drop 3 (dropWhile (\<lambda>c. c \<noteq> CHR '':'') u);
          rest = dropWhile (\<lambda>c. c \<notin> set ''/?#'') after_scheme
      in splitparams (before_char CHR ''?'' (before_char CHR ''#'' rest)))"

section \<open>Prompt enhancement\<close>

definition is_url :: "string \<Rightarrow> bool" where
  "is_url path_or_url \<longleftrightarrow>
     startswith path_or_url ''http://'' \<or> startswith path_or_url ''https://''"

text \<open>\<open>_get_image_reference_name\<close>: the stem of the file name, of a URL's path or of a local path.\<close>

definition get_image_reference_name :: "string \<Rightarrow> string" where
  "get_image_reference_name image_path =
     (if is_url image_path then
        (let stem = path_stem (Path (urlparse_path image_path))
         in if stem = [] then ''image'' else stem)
      else
        (let path_obj = Path image_path
         in if path_stem path_obj = [] then path_name path_obj else path_stem path_obj))"

definition reference_keywords :: "unicode_tables \<Rightarrow> string \<Rightarrow> string \<Rightarrow> string list" where
  "reference_keywords ud image1_name image2_name =
     [''image1'', ''image2'', ''first image'', ''second image'', ''image 1'', ''image 2'',
      str_lower ud image1_name, str_lower ud image2_name]"

definition has_reference :: "unicode_tables \<Rightarrow> string \<Rightarrow> string \<Rightarrow> string \<Rightarrow> bool" where
  "has_reference ud prompt image1_name image2_name \<longleftrightarrow>
     list_ex (\<lambda>keyword. str_contains keyword (str_lower ud prompt))
       (reference_keywords ud image1_name image2_name)"

definition context_sentence :: "string \<Rightarrow> string \<Rightarrow> string" where
  "context_sentence image1_name image2_name =
     ''Context: You have two images - '' @ [CHR 0x27] @ image1_name @ [CHR 0x27]
     @ '' (image1/first image) and '' @ [CHR 0x27] @ image2_name @ [CHR 0x27]
     @ '' (image2/second image). ''"

text \<open>
  \<open>_enhance_prompt_with_image_references\<close>. The second image path is optional; \<open>None\<close>
  and the empty string are both false in the guard.
\<close>

definition enhance_prompt_with_image_references ::
  "unicode_tables \<Rightarrow> string \<Rightarrow> string \<Rightarrow> string option \<Rightarrow> bool \<Rightarrow> string" where
  "enhance_prompt_with_image_references ud prompt image_path second_image_path auto_reference =
     (case second_image_path of
        None \<Rightarrow> prompt
      | Some second \<Rightarrow>
          if \<not> auto_reference \<or> second = [] then prompt
          else
            let image1_name = get_image_reference_name image_path;
                image2_name = get_image_reference_name second
            in if has_reference ud prompt image1_name image2_name then prompt
               else context_sentence image1_name image2_name @ str_strip prompt)"

section \<open>Exceptions and JSON values\<close>

text \<open>Every exception the modelled code can raise is a value; \<open>Inl\<close> carries it.\<close>

datatype error =
    RuntimeError string
  | FileNotFoundError string
  | IsADirectoryError string
  | RequestException string
  | TypeError
  | KeyError string
  | IndexError
  | AttributeError
  | ValueError

definition and_then :: "error + 'a \<Rightarrow> ('a \<Rightarrow> error + 'b) \<Rightarrow> error + 'b" where
  "and_then r f = (case r of Inl e \<Rightarrow> Inl e | Inr v \<Rightarrow> f v)"

text \<open>
  What \<open>response.json()\<close> returns. A dictionary keeps its insertion order; numbers are
  the integers (a JSON number with a fraction is outside the model).
\<close>

datatype json =
    JNull
  | JBool bool
  | JInt int
  | JStr string
  | JList "json list"
  | JObj "(string \<times> json) list"

text \<open>\<open>bool(v)\<close>.\<close>

fun truthy :: "json \<Rightarrow> bool" where
  "truthy JNull = False"
| "truthy (JBool b) = b"
| "truthy (JInt i) = (i \<noteq> 0)"
| "truthy (JStr s) = (s \<noteq> [])"
| "truthy (JList xs) = (xs \<noteq> [])"
| "truthy (JObj kvs) = (kvs \<noteq> [])"

text \<open>\<open>key in v\<close> for a string key: key lookup, substring or membership; \<open>TypeError\<close> otherwise.\<close>

fun py_in :: "string \<Rightarrow> json \<Rightarrow> error + bool" where
  "py_in key (JObj kvs) = Inr (map_of kvs key \<noteq> None)"
| "py_in key (JStr s) = Inr (str_contains key s)"
| "py_in key (JList xs) = Inr (JStr key \<in> set xs)"
| "py_in key v = Inl TypeError"

text \<open>\<open>v[key]\<close> for a string key.\<close>

fun py_getitem :: "json \<Rightarrow> string \<Rightarrow> error + json" where
  "py_getitem (JObj kvs) key =
     (case map_of kvs key of None \<Rightarrow> Inl (KeyError key) | Some v \<Rightarrow> Inr v)"
| "py_getitem v key = Inl TypeError"

text \<open>\<open>v[0]\<close>.\<close>

fun py_first :: "json \<Rightarrow> error + json" where
  "py_first (JList xs) = (case xs of [] \<Rightarrow> Inl IndexError | x # _ \<Rightarrow> Inr x)"
| "py_first (JStr s) = (case s of [] \<Rightarrow> Inl IndexError | c # _ \<Rightarrow> Inr (JStr [c]))"
| "py_first (JObj kvs) = Inl (KeyError ''0'')"
| "py_first v = Inl TypeError"

text \<open>\<open>v.get(key, dflt)\<close>: only a dictionary has the method.\<close>

fun py_get :: "json \<Rightarrow> string \<Rightarrow> json \<Rightarrow> error + json" where
  "py_get (JObj kvs) key dflt =
     (case map_of kvs key of None \<Rightarrow> Inr dflt | Some v \<Rightarrow> Inr v)"
| "py_get v key dflt = Inl AttributeError"

text \<open>
  \<open>repr\<close> and \<open>str\<close> of a value. A string is quoted with \<open>'\<close> unless it contains \<open>'\<close>
  and no \<open>"\<close>; the quote, the backslash, the control characters and the characters
  that are not printable are escaped, the latter by \<open>\x\<close>, \<open>\u\<close> or \<open>\U\<close> and the
  code point in two, four or eight hexadecimal digits.
\<close>

definition hex_digit :: "nat \<Rightarrow> char" where
  "hex_digit n = ''0123456789abcdef'' ! n"

fun hex_fixed :: "nat \<Rightarrow> nat \<Rightarrow> string" where
  "hex_fixed 0 n = []"
| "hex_fixed (Suc k) n = hex_fixed k (n div 16) @ [hex_digit (n mod 16)]"

definition repr_char :: "unicode_tables \<Rightarrow> char \<Rightarrow> string \<Rightarrow> string" where
  "repr_char ud quote g =
     (let cp = code_point g in
      if g = [quote] \<or> g = [CHR 0x5C] then CHR 0x5C # g
      else if g = [CHR 0x09] then [CHR 0x5C, CHR ''t'']
      else if g = [CHR 0x0A] then [CHR 0x5C, CHR ''n'']
      else if g = [CHR 0x0D] then [CHR 0x5C, CHR ''r'']
      else if cp < 32 \<or> cp = 127 then [CHR 0x5C, CHR ''x''] @ hex_fixed 2 cp
      else if cp < 127 then g
      else if printable ud cp then g
      else if cp < 256 then [CHR 0x5C, CHR ''x''] @ hex_fixed 2 cp
      else if cp < 65536 then [CHR 0x5C, CHR ''u''] @ hex_fixed 4 cp
      else [CHR 0x5C, CHR ''U''] @ hex_fixed 8 cp)"

definition repr_str :: "unicode_tables \<Rightarrow> string \<Rightarrow> string" where
  "repr_str ud s =
     (let quote = (if CHR 0x27 \<in> set s \<and> CHR 0x22 \<notin> set s then CHR 0x22 else CHR 0x27)
      in [quote] @ concat (map (repr_char ud quote) (utf8_chars s)) @ [quote])"

fun py_repr :: "unicode_tables \<Rightarrow> json \<Rightarrow> string" where
  "py_repr ud JNull = ''None''"
| "py_repr ud (JBool b) = (if b then ''True'' else ''False'')"
| "py_repr ud (JInt i) = show_int i"
| "py_repr ud (JStr s) = repr_str ud s"
| "py_repr ud (JList xs) = ''['' @ str_join '', '' (map (py_repr ud) xs) @ '']''"
| "py_repr ud (JObj kvs) =
     ''{'' @ str_join '', ''
              (map (\<lambda>kv. repr_str ud (fst kv) @ '': '' @ py_repr ud (snd kv)) kvs) @ ''}''"

definition py_str :: "unicode_tables \<Rightarrow> json \<Rightarrow> string" where
  "py_str ud v = (case v of JStr s \<Rightarrow> s | _ \<Rightarrow> py_repr ud v)"

section \<open>\<open>GeminiVideoService.extract_video_uri\<close>\<close>

definition no_video_uri_message :: string where
  "no_video_uri_message = ''No video URI found in completed operation response''"

definition safety_filter_message :: "string \<Rightarrow> string \<Rightarrow> string" where
  "safety_filter_message reasons_str filtered_count =
     ''Video generation was blocked by safety filters. ''
     @ ''Reason(s): '' @ reasons_str @ ''. ''
     @ ''Filtered count: '' @ filtered_count @ ''. ''
     @ ''Suggestions: 1) Simplify your prompt (remove brand names, celebrities, or copyrighted content), ''
     @ ''2) If audio is the issue, retry with --silent-video flag or add 'silent video' to your prompt, ''
     @ ''3) Check that your image doesn't contain restricted content. ''
     @ ''You have not been charged for this attempt.''"

text \<open>
  \<open>", ".join(reasons) if isinstance(reasons, list) else str(reasons)\<close>: joining raises
  \<open>TypeError\<close> when an element of the list is not a string.
\<close>

fun the_str :: "json \<Rightarrow> string option" where
  "the_str (JStr s) = Some s"
| "the_str v = None"

definition reasons_text :: "unicode_tables \<Rightarrow> json \<Rightarrow> error + string" where
  "reasons_text ud reasons =
     (case reasons of
        JList xs \<Rightarrow>
          (if list_all (\<lambda>x. the_str x \<noteq> None) xs
           then Inr (str_join '', '' (map (\<lambda>x. the (the_str x)) xs))
           else Inl TypeError)
      | _ \<Rightarrow> Inr (py_str ud reasons))"

definition default_filtered_count :: "json \<Rightarrow> json" where
  "default_filtered_count reasons =
     (case reasons of JList xs \<Rightarrow> JInt (int (length xs)) | _ \<Rightarrow> JInt 1)"

definition extract_video_uri :: "unicode_tables \<Rightarrow> json \<Rightarrow> error + json" where
  "extract_video_uri ud operation_data =
     and_then (py_in ''response'' operation_data) (\<lambda>has_response.
     if \<not> has_response then Inl (RuntimeError no_video_uri_message) else
     and_then (py_getitem operation_data ''response'') (\<lambda>response_data.
     and_then (py_in ''generateVideoResponse'' response_data) (\<lambda>has_gen_res.
     if \<not> has_gen_res then Inl (RuntimeError no_video_uri_message) else
     and_then (py_getitem response_data ''generateVideoResponse'') (\<lambda>gen_res.
     and_then (py_in ''raiMediaFilteredReasons'' gen_res) (\<lambda>filtered.
     if filtered then
       and_then (py_getitem gen_res ''raiMediaFilteredReasons'') (\<lambda>reasons.
       and_then (reasons_text ud reasons) (\<lambda>reasons_str.
       and_then (py_get gen_res ''raiMediaFilteredCount'' (default_filtered_count reasons))
         (\<lambda>filtered_count.
       Inl (RuntimeError (safety_filter_message reasons_str (py_str ud filtered_count))))))
     else
     and_then (py_in ''generatedSamples'' gen_res) (\<lambda>has_samples.
     if \<not> has_samples then Inl (RuntimeError no_video_uri_message) else
     and_then (py_getitem gen_res ''generatedSamples'') (\<lambda>samples.
     if \<not> truthy samples then Inl (RuntimeError no_video_uri_message) else
     and_then (py_first samples) (\<lambda>sample.
     and_then (py_in ''video'' sample) (\<lambda>has_video.
     if \<not> has_video then Inl (RuntimeError no_video_uri_message) else
     and_then (py_getitem sample ''video'') (\<lambda>video.
     and_then (py_in ''uri'' video) (\<lambda>has_uri.
     if \<not> has_uri then Inl (RuntimeError no_video_uri_message) else
     py_getitem video ''uri'')))))))))))"

section \<open>The world outside: HTTP, files, configuration\<close>

text \<open>
  A response of the \<open>requests\<close> library, with what the code reads from it.
  \<open>json_body\<close> is the result of \<open>response.json()\<close>: \<open>Inl\<close> carries the message of the
  decoding error when the body is not JSON.
\<close>

record http_response =
  status_code :: nat
  reason :: string
  response_url :: string
  content_type :: "string option"
  content :: bytes
  json_body :: "string + json"

text \<open>A request either raises a \<open>requests.RequestException\<close> (with its text) or responds.\<close>

datatype http_result = Raises string | Responds http_response

text \<open>\<open>response.raise_for_status()\<close>: the text of the \<open>HTTPError\<close> for a 4xx or 5xx status.\<close>

definition raise_for_status :: "http_response \<Rightarrow> string option" where
  "raise_for_status r =
     (if 400 \<le> status_code r \<and> status_code r < 500
        then Some (show_nat (status_code r) @ '' Client Error: '' @ reason r @ '' for url: '' @ response_url r)
      else if 500 \<le> status_code r \<and> status_code r < 600
        then Some (show_nat (status_code r) @ '' Server Error: '' @ reason r @ '' for url: '' @ response_url r)
      else None)"

datatype fsentry = File bytes | Dir

text \<open>
  The environment of one run: the file system as the operating system resolves a path
  string, the remote answers to GET (by URL and headers) and to POST (by URL, headers and
  JSON payload), \<open>mimetypes.guess_type\<close>, and the log of the payloads posted so far.
  Within one run the same request gets the same answer and the files do not change;
  the only state the modelled functions change is the log.
\<close>

record world =
  fs :: "string \<Rightarrow> fsentry option"
  http_get :: "string \<Rightarrow> (string \<times> string) list \<Rightarrow> http_result"
  http_post :: "string \<Rightarrow> (string \<times> string) list \<Rightarrow> json \<Rightarrow> http_result"
  guess_type :: "string \<Rightarrow> string option"
  posted :: "(string \<times> json) list"

text \<open>The fields of \<open>GeminiVideoService\<close> and of \<open>GeminiVideoGenerator\<close> after \<open>__init__\<close>.\<close>

record video_service =
  svc_api_key :: string
  svc_base_url :: string
  svc_verbose :: bool

record generator =
  api_key :: string
  base_path :: path
  video_dir :: path
  base_url :: "string option"
  verbose :: bool
  video_service :: video_service

definition model_name :: string where
  "model_name = ''veo-3.1-generate-preview''"

definition svc_is_available :: "video_service \<Rightarrow> bool" where
  "svc_is_available svc \<longleftrightarrow> svc_api_key svc \<noteq> []"

section \<open>\<open>GeminiVideoService.download_video\<close>\<close>

text \<open>The URI that is fetched: the key is appended by two substring tests.\<close>

definition video_request_uri :: "video_service \<Rightarrow> string \<Rightarrow> string" where
  "video_request_uri svc video_uri =
     (if str_contains ''generativelanguage.googleapis.com'' video_uri
         \<and> \<not> str_contains ''key='' video_uri
      then (let separator = (if str_contains ''?'' video_uri then ''&'' else ''?'')
            in video_uri @ separator @ ''key='' @ svc_api_key svc)
      else video_uri)"

text \<open>The request itself, the status check and the check of the body.\<close>

definition fetch_video :: "video_service \<Rightarrow> world \<Rightarrow> string \<Rightarrow> error + bytes" where
  "fetch_video svc w uri =
     (case http_get w uri [(''x-goog-api-key'', svc_api_key svc)] of
        Raises msg \<Rightarrow> Inl (RequestException msg)
      | Responds response \<Rightarrow>
          (case raise_for_status response of
             Some msg \<Rightarrow> Inl (RequestException msg)
           | None \<Rightarrow>
               if content response = []
               then Inl (RuntimeError ''Video download returned empty content'')
               else Inr (content response)))"

definition download_video :: "video_service \<Rightarrow> world \<Rightarrow> string \<Rightarrow> error + bytes" where
  "download_video svc w video_uri = fetch_video svc w (video_request_uri svc video_uri)"

subsection \<open>The terms of the specification for a video locator\<close>

text \<open>
  The host of a URI is the text between \<open>://\<close> and the next \<open>/\<close>, \<open>?\<close> or \<open>#\<close>; its
  query string lies between the first \<open>?\<close> and the fragment; a URI carries the credential
  as a query parameter when one of the \<open>&\<close>-separated fields of its query starts with
  \<open>key=\<close>.
\<close>

definition trusted_host :: string where
  "trusted_host = ''generativelanguage.googleapis.com''"

definition uri_host :: "string \<Rightarrow> string" where
  "uri_host u =
     (let rest = dropWhile (\<lambda>c. c \<noteq> CHR '':'') u
      in if startswith rest ''://''
         then takeWhile (\<lambda>c. c \<notin> set ''/?#'') (drop 3 rest)
         else [])"

definition uri_query :: "string \<Rightarrow> string" where
  "uri_query u = drop 1 (dropWhile (\<lambda>c. c \<noteq> CHR ''?'') (before_char CHR ''#'' u))"

definition carries_credential :: "string \<Rightarrow> bool" where
  "carries_credential u \<longleftrightarrow>
     list_ex (\<lambda>field. startswith field ''key='') (str_split CHR ''&'' (uri_query u))"

section \<open>Library models: \<open>hashlib.md5\<close> and \<open>base64.b64encode\<close>\<close>

text \<open>
  MD5 as RFC 1321 defines it: the message is padded with \<open>0x80\<close>, zeros and its length
  in bits as a 64-bit little-endian number; every 64-byte block updates four 32-bit
  words by 64 steps.
\<close>

definition md5_K :: "32 word list" where
  "md5_K =
     [0xd76aa478, 0xe8c7b756, 0x242070db, 0xc1bdceee,
      0xf57c0faf, 0x4787c62a, 0xa8304613, 0xfd469501,
      0x698098d8, 0x8b44f7af, 0xffff5bb1, 0x895cd7be,
      0x6b901122, 0xfd987193, 0xa679438e, 0x49b40821,
      0xf61e2562, 0xc040b340, 0x265e5a51, 0xe9b6c7aa,
      0xd62f105d, 0x02441453, 0xd8a1e681, 0xe7d3fbc8,
      0x21e1cde6, 0xc33707d6, 0xf4d50d87, 0x455a14ed,
      0xa9e3e905, 0xfcefa3f8, 0x676f02d9, 0x8d2a4c8a,
      0xfffa3942, 0x8771f681, 0x6d9d6122, 0xfde5380c,
      0xa4beea44, 0x4bdecfa9, 0xf6bb4b60, 0xbebfbc70,
      0x289b7ec6, 0xeaa127fa, 0xd4ef3085, 0x04881d05,
      0xd9d4d039, 0xe6db99e5, 0x1fa27cf8, 0xc4ac5665,
      0xf4292244, 0x432aff97, 0xab9423a7, 0xfc93a039,
      0x655b59c3, 0x8f0ccc92, 0xffeff47d, 0x85845dd1,
      0x6fa87e4f, 0xfe2ce6e0, 0xa3014314, 0x4e0811a1,
      0xf7537e82, 0xbd3af235, 0x2ad7d2bb, 0xeb86d391]"

definition md5_S :: "nat list" where
  "md5_S =
     [7, 12, 17, 22, 7, 12, 17, 22, 7, 12, 17, 22, 7, 12, 17, 22,
      5, 9, 14, 20, 5, 9, 14, 20, 5, 9, 14, 20, 5, 9, 14, 20,
      4, 11, 16, 23, 4, 11, 16, 23, 4, 11, 16, 23, 4, 11, 16, 23,
      6, 10, 15, 21, 6, 10, 15, 21, 6, 10, 15, 21, 6, 10, 15, 21]"

definition rotl32 :: "32 word \<Rightarrow> nat \<Rightarrow> 32 word" where
  "rotl32 x n = push_bit n x OR drop_bit (32 - n) x"

type_synonym md5_state = "32 word \<times> 32 word \<times> 32 word \<times> 32 word"

definition md5_step :: "32 word list \<Rightarrow> md5_state \<Rightarrow> nat \<Rightarrow> md5_state" where
  "md5_step m st i =
     (case st of (a, b, c, d) \<Rightarrow>
        let f = (if i < 16 then (b AND c) OR (NOT b AND d)
                 else if i < 32 then (d AND b) OR (NOT d AND c)
                 else if i < 48 then b XOR c XOR d
                 else c XOR (b OR NOT d));
            g = (if i < 16 then i
                 else if i < 32 then (5 * i + 1) mod 16
                 else if i < 48 then (3 * i + 5) mod 16
                 else (7 * i) mod 16)
        in (d, b + rotl32 (a + f + md5_K ! i + m ! g) (md5_S ! i), b, c))"

text \<open>Four bytes, least significant first, as one word.\<close>

fun le_words :: "bytes \<Rightarrow> 32 word list" where
  "le_words (b0 # b1 # b2 # b3 # bs) =
     (ucast b0 OR push_bit 8 (ucast b1) OR push_bit 16 (ucast b2) OR push_bit 24 (ucast b3))
       # le_words bs"
| "le_words bs = []"

definition md5_block :: "md5_state \<Rightarrow> bytes \<Rightarrow> md5_state" where
  "md5_block st block =
     (case st of (a0, b0, c0, d0) \<Rightarrow>
        (case foldl (md5_step (le_words block)) st [0..<64] of
           (a, b, c, d) \<Rightarrow> (a0 + a, b0 + b, c0 + c, d0 + d)))"

fun md5_blocks :: "nat \<Rightarrow> md5_state \<Rightarrow> bytes \<Rightarrow> md5_state" where
  "md5_blocks 0 st bs = st"
| "md5_blocks (Suc n) st bs = md5_blocks n (md5_block st (take 64 bs)) (drop 64 bs)"

text \<open>A word as bytes, least significant first.\<close>

definition le_bytes4 :: "32 word \<Rightarrow> bytes" where
  "le_bytes4 w = [ucast w, ucast (drop_bit 8 w), ucast (drop_bit 16 w), ucast (drop_bit 24 w)]"

definition le_bytes8 :: "64 word \<Rightarrow> bytes" where
  "le_bytes8 w =
     [ucast w, ucast (drop_bit 8 w), ucast (drop_bit 16 w), ucast (drop_bit 24 w),
      ucast (drop_bit 32 w), ucast (drop_bit 40 w), ucast (drop_bit 48 w), ucast (drop_bit 56 w)]"

definition md5_pad :: "bytes \<Rightarrow> bytes" where
  "md5_pad msg =
     msg @ [0x80] @ replicate ((119 - length msg mod 64) mod 64) 0
         @ le_bytes8 (8 * of_nat (length msg))"

definition md5_digest :: "bytes \<Rightarrow> bytes" where
  "md5_digest msg =
     (case md5_blocks (length (md5_pad msg) div 64)
             (0x67452301, 0xefcdab89, 0x98badcfe, 0x10325476) (md5_pad msg) of
        (a, b, c, d) \<Rightarrow>
          concat (map le_bytes4 [a, b, c, d]))"

definition hex_byte :: "byte \<Rightarrow> string" where
  "hex_byte b = [hex_digit (unat b div 16), hex_digit (unat b mod 16)]"

text \<open>\<open>hashlib.md5(data).hexdigest()\<close>.\<close>

definition md5_hexdigest :: "bytes \<Rightarrow> string" where
  "md5_hexdigest msg = concat (map hex_byte (md5_digest msg))"

text \<open>\<open>base64.b64encode(data).decode('utf-8')\<close>: three bytes give four characters, with \<open>=\<close> padding.\<close>

definition b64_char :: "nat \<Rightarrow> char" where
  "b64_char n = ''ABCDEFGHIJKLMNOPQRSTUVWXYZabcdefghijklmnopqrstuvwxyz0123456789+/'' ! n"

fun b64encode :: "bytes \<Rightarrow> string" where
  "b64encode [] = []"
| "b64encode [x] =
     [b64_char (unat x div 4), b64_char (unat x mod 4 * 16), CHR ''='', CHR ''='']"
| "b64encode [x, y] =
     [b64_char (unat x div 4), b64_char (unat x mod 4 * 16 + unat y div 16),
      b64_char (unat y mod 16 * 4), CHR ''='']"
| "b64encode (x # y # z # bs) =
     [b64_char (unat x div 4), b64_char (unat x mod 4 * 16 + unat y div 16),
      b64_char (unat y mod 16 * 4 + unat z div 64), b64_char (unat z mod 64)]
     @ b64encode bs"

section \<open>\<open>GeminiVideoService.submit_video_generation_request\<close>\<close>

definition image_part :: "bytes \<Rightarrow> string \<Rightarrow> json" where
  "image_part image_data mime_type =
     JObj [(''bytesBase64Encoded'', JStr (b64encode image_data)), (''mimeType'', JStr mime_type)]"

text \<open>
  The payload. The second image is added when both its data and its MIME type are
  true in Python's sense: present and not empty.
\<close>

definition submit_payload ::
  "string \<Rightarrow> bytes \<Rightarrow> string \<Rightarrow> string \<Rightarrow> bytes option \<Rightarrow> string option \<Rightarrow> json" where
  "submit_payload prompt image_data mime_type aspect_ratio second_image_data second_mime_type =
     (let instance_data =
            [(''prompt'', JStr prompt), (''image'', image_part image_data mime_type)]
            @ (case second_image_data of
                 None \<Rightarrow> []
               | Some data2 \<Rightarrow>
                   (case second_mime_type of
                      None \<Rightarrow> []
                    | Some mime2 \<Rightarrow>
                        if data2 \<noteq> [] \<and> mime2 \<noteq> []
                        then [(''image2'', image_part data2 mime2)] else []));
          parameters = (if aspect_ratio \<noteq> [] then [(''aspectRatio'', JStr aspect_ratio)] else [])
      in JObj [(''instances'', JList [JObj instance_data]), (''parameters'', JObj parameters)])"

definition submit_endpoint :: "video_service \<Rightarrow> string" where
  "submit_endpoint svc = svc_base_url svc @ ''/models/'' @ model_name @ '':predictLongRunning''"

record submit_result =
  sr_operationName :: json
  sr_done :: json
  sr_status :: string

text \<open>
  What the \<open>try\<close> block does with the answer. A \<open>RuntimeError\<close> raised inside it is
  caught by \<open>except Exception\<close> like any other exception and raised again with a prefix.
\<close>

definition read_submit_response :: "json \<Rightarrow> error + submit_result" where
  "read_submit_response data =
     and_then (py_in ''name'' data) (\<lambda>has_name.
     if \<not> has_name then Inl (RuntimeError ''Invalid API response: operation name not found'') else
     and_then (py_getitem data ''name'') (\<lambda>name.
     and_then (py_get data ''done'' (JBool False)) (\<lambda>done.
     Inr \<lparr>sr_operationName = name, sr_done = done,
          sr_status = (if truthy done then ''completed'' else ''running'')\<rparr>)))"

text \<open>
  \<open>str(e)\<close> of a caught exception: the message of a \<open>RuntimeError\<close>; the interpreter's
  text for a built-in exception is a parameter.
\<close>

definition exception_text :: "(error \<Rightarrow> string) \<Rightarrow> error \<Rightarrow> string" where
  "exception_text builtin_text e = (case e of RuntimeError msg \<Rightarrow> msg | _ \<Rightarrow> builtin_text e)"

definition submit_video_generation_request ::
  "video_service \<Rightarrow> (error \<Rightarrow> string) \<Rightarrow> world \<Rightarrow> string \<Rightarrow> bytes \<Rightarrow> string \<Rightarrow> string
     \<Rightarrow> bytes option \<Rightarrow> string option \<Rightarrow> (error + submit_result) \<times> world" where
  "submit_video_generation_request svc builtin_text w prompt image_data mime_type aspect_ratio
       second_image_data second_mime_type =
     (if \<not> svc_is_available svc
      then (Inl (RuntimeError
              ''Gemini video service is not available. Please configure the Gemini API key.''), w)
      else
        let endpoint = submit_endpoint svc;
            payload = submit_payload prompt image_data mime_type aspect_ratio
                        second_image_data second_mime_type;
            headers = [(''x-goog-api-key'', svc_api_key svc),
                       (''Content-Type'', ''application/json'')];
            w' = w\<lparr>posted := posted w @ [(endpoint, payload)]\<rparr>
        in (case http_post w endpoint headers payload of
              Raises msg \<Rightarrow> (Inl (RuntimeError (''Gemini API request failed: '' @ msg)), w')
            | Responds response \<Rightarrow>
                (case raise_for_status response of
                   Some msg \<Rightarrow> (Inl (RuntimeError (''Gemini API request failed: '' @ msg)), w')
                 | None \<Rightarrow>
                     (case json_body response of
                        Inl msg \<Rightarrow> (Inl (RuntimeError (''Gemini API request failed: '' @ msg)), w')
                      | Inr data \<Rightarrow>
                          (case read_submit_response data of
                             Inl e \<Rightarrow>
                               (Inl (RuntimeError (''Video generation failed: ''
                                       @ exception_text builtin_text e)), w')
                           | Inr result \<Rightarrow> (Inr result, w'))))))"

section \<open>\<open>GeminiVideoGenerator\<close>: images, cache key, cache lookup\<close>

definition is_available :: "generator \<Rightarrow> bool" where
  "is_available gen \<longleftrightarrow> svc_is_available (video_service gen)"

definition or_jpeg :: "string option \<Rightarrow> string" where
  "or_jpeg guessed = (case guessed of None \<Rightarrow> ''image/jpeg'' | Some m \<Rightarrow> if m = [] then ''image/jpeg'' else m)"

definition download_image_from_url :: "world \<Rightarrow> string \<Rightarrow> error + bytes \<times> string" where
  "download_image_from_url w url =
     (let failed = (\<lambda>msg. Inl (RuntimeError
                      (''Failed to download image from URL '' @ url @ '': '' @ msg)))
      in case http_get w url [] of
           Raises msg \<Rightarrow> failed msg
         | Responds response \<Rightarrow>
             (case raise_for_status response of
                Some msg \<Rightarrow> failed msg
              | None \<Rightarrow>
                  let header = (case content_type response of None \<Rightarrow> [] | Some t \<Rightarrow> t);
                      mime_type = str_strip (hd (str_split CHR '';'' header))
                  in if mime_type = [] \<or> mime_type = ''application/octet-stream''
                     then Inr (content response, or_jpeg (guess_type w url))
                     else Inr (content response, mime_type)))"

text \<open>\<open>resolve_image_path\<close> for a path that is not a URL.\<close>

definition resolve_image_path :: "generator \<Rightarrow> string \<Rightarrow> path option" where
  "resolve_image_path gen image_path =
     (if is_url image_path then None
      else if is_absolute (Path image_path) then Some (Path image_path)
      else
        let image_path' = (if startswith image_path ''pub/media/'' then drop 10 image_path
                           else image_path)
        in Some (joinpath (joinpath (joinpath (base_path gen) ''pub'') ''media'')
                   (dropWhile (\<lambda>c. c = CHR ''/'') image_path')))"

text \<open>Reading a file: the path must exist; opening a directory raises.\<close>

definition read_file :: "world \<Rightarrow> string \<Rightarrow> string \<Rightarrow> error + bytes" where
  "read_file w path_string not_found =
     (case fs w path_string of
        None \<Rightarrow> Inl (FileNotFoundError not_found)
      | Some Dir \<Rightarrow> Inl (IsADirectoryError path_string)
      | Some (File data) \<Rightarrow> Inr data)"

definition load_image :: "generator \<Rightarrow> world \<Rightarrow> string \<Rightarrow> error + bytes \<times> string \<times> string" where
  "load_image gen w image_path =
     (if is_url image_path then
        and_then (download_image_from_url w image_path) (\<lambda>(image_data, mime_type).
        Inr (image_data, mime_type, image_path))
      else
        (case resolve_image_path gen image_path of
           None \<Rightarrow> Inl (FileNotFoundError (''Source image not found: '' @ image_path))
         | Some source_path \<Rightarrow>
             and_then (read_file w (path_str source_path)
                         (''Source image not found: '' @ image_path)) (\<lambda>image_data.
             Inr (image_data, or_jpeg (guess_type w (path_str source_path)),
                  path_str source_path))))"

definition get_image_hash :: "world \<Rightarrow> string \<Rightarrow> error + string" where
  "get_image_hash w path =
     (if is_url path then
        and_then (download_image_from_url w path) (\<lambda>(image_data, mime_type).
        Inr (md5_hexdigest image_data))
      else
        and_then (read_file w (path_str (Path path)) (''Image not found: '' @ path))
          (\<lambda>image_data. Inr (md5_hexdigest image_data)))"

definition cache_data :: "string \<Rightarrow> string \<Rightarrow> string \<Rightarrow> string \<Rightarrow> string" where
  "cache_data image_hash second_image_hash prompt aspect_ratio =
     image_hash @ '':'' @ second_image_hash @ '':'' @ prompt @ '':'' @ aspect_ratio"

definition generate_cache_key ::
  "world \<Rightarrow> string \<Rightarrow> string \<Rightarrow> string \<Rightarrow> string option \<Rightarrow> error + string" where
  "generate_cache_key w image_path prompt aspect_ratio second_image_path =
     and_then (get_image_hash w image_path) (\<lambda>image_hash.
     and_then (case second_image_path of
                 None \<Rightarrow> Inr []
               | Some second \<Rightarrow> if second = [] then Inr [] else get_image_hash w second)
       (\<lambda>second_image_hash.
     Inr (md5_hexdigest (encode (cache_data image_hash second_image_hash prompt aspect_ratio)))))"

definition video_filename :: "string \<Rightarrow> string" where
  "video_filename cache_key = ''veo_'' @ cache_key @ ''.mp4''"

definition get_relative_video_path :: "generator \<Rightarrow> string \<Rightarrow> string" where
  "get_relative_video_path gen filename =
     (case relative_to (joinpath (video_dir gen) filename) (base_path gen) of
        Some relative_path \<Rightarrow>
          map (\<lambda>c. if c = CHR 0x5C then CHR ''/'' else c) (path_str relative_path)
      | None \<Rightarrow> filename)"

definition video_url :: "generator \<Rightarrow> string \<Rightarrow> string" where
  "video_url gen relative_path =
     (case base_url gen of
        None \<Rightarrow> ''/'' @ relative_path
      | Some b \<Rightarrow>
          if b = [] then ''/'' @ relative_path
          else rev (dropWhile (\<lambda>c. c = CHR ''/'') (rev b)) @ ''/'' @ relative_path)"

record cached_video =
  fromCache :: bool
  videoUrl :: string
  videoPath :: string
  status :: string

definition get_cached_video :: "generator \<Rightarrow> world \<Rightarrow> string \<Rightarrow> cached_video option" where
  "get_cached_video gen w cache_key =
     (let filename = video_filename cache_key;
          video_path = joinpath (video_dir gen) filename
      in if fs w (path_str video_path) \<noteq> None
         then Some \<lparr>fromCache = True,
                    videoUrl = video_url gen (get_relative_video_path gen filename),
                    videoPath = path_str video_path,
                    status = ''completed''\<rparr>
         else None)"

section \<open>\<open>GeminiVideoGenerator.generate_video_from_image\<close>\<close>

text \<open>The prompt after enhancement and after the silent-video suffix.\<close>

definition final_prompt ::
  "unicode_tables \<Rightarrow> string \<Rightarrow> string \<Rightarrow> string option \<Rightarrow> bool \<Rightarrow> bool \<Rightarrow> string" where
  "final_prompt ud prompt image_path second_image_path auto_reference_images silent_video =
     (let enhanced = enhance_prompt_with_image_references ud prompt image_path second_image_path
                       auto_reference_images
      in if silent_video then str_strip enhanced @ '' silent video'' else enhanced)"

subsection \<open>A reference as the specification words it\<close>

text \<open>
  The prompt contains one of the reference keywords or one of the two image names,
  compared as written.
\<close>

definition mentions_reference :: "string \<Rightarrow> string \<Rightarrow> string \<Rightarrow> bool" where
  "mentions_reference prompt image1_name image2_name \<longleftrightarrow>
     list_ex (\<lambda>keyword. str_contains keyword prompt)
       [''image1'', ''image2'', ''first image'', ''second image'', ''image 1'', ''image 2'',
        image1_name, image2_name]"

record operation =
  operationName :: json
  cacheKey :: string
  op_done :: json
  op_status :: string

datatype generation = FromCache cached_video | Started operation

text \<open>The second image is loaded when its path is given and not empty.\<close>

definition load_second_image ::
  "generator \<Rightarrow> world \<Rightarrow> string option \<Rightarrow> error + (bytes \<times> string \<times> string) option" where
  "load_second_image gen w second_image_path =
     (case second_image_path of
        None \<Rightarrow> Inr None
      | Some second \<Rightarrow>
          if second = [] then Inr None
          else and_then (load_image gen w second) (\<lambda>loaded. Inr (Some loaded)))"

definition generate_video_from_image ::
  "generator \<Rightarrow> unicode_tables \<Rightarrow> (error \<Rightarrow> string) \<Rightarrow> world \<Rightarrow> string \<Rightarrow> string \<Rightarrow> string
     \<Rightarrow> bool \<Rightarrow> string option \<Rightarrow> bool \<Rightarrow> (error + generation) \<times> world" where
  "generate_video_from_image gen ud builtin_text w image_path prompt aspect_ratio silent_video
       second_image_path auto_reference_images =
     (if \<not> is_available gen
      then (Inl (RuntimeError
              ''Gemini video service is not available. Please configure the Gemini API key.''), w)
      else
        (case load_image gen w image_path of
           Inl e \<Rightarrow> (Inl e, w)
         | Inr (image_data, mime_type, source_path_str) \<Rightarrow>
        (case load_second_image gen w second_image_path of
           Inl e \<Rightarrow> (Inl e, w)
         | Inr second \<Rightarrow>
        let prompt' = final_prompt ud prompt image_path second_image_path auto_reference_images
                        silent_video
        in
        (case generate_cache_key w source_path_str prompt' aspect_ratio
                (map_option (\<lambda>(d, m, second_source_path_str). second_source_path_str) second) of
           Inl e \<Rightarrow> (Inl e, w)
         | Inr cache_key \<Rightarrow>
        (case get_cached_video gen w cache_key of
           Some cached_video \<Rightarrow> (Inr (FromCache cached_video), w)
         | None \<Rightarrow>
        (case submit_video_generation_request (video_service gen) builtin_text w prompt'
                image_data mime_type aspect_ratio
                (map_option (\<lambda>(d, m, s). d) second) (map_option (\<lambda>(d, m, s). m) second) of
           (Inl e, w') \<Rightarrow> (Inl e, w')
         | (Inr result, w') \<Rightarrow>
             (Inr (Started \<lparr>operationName = sr_operationName result, cacheKey = cache_key,
                             op_done = sr_done result, op_status = sr_status result\<rparr>), w')))))))"

text \<open>The cache key of a request: what \<open>generate_video_from_image\<close> computes before it looks the cache up.\<close>

definition request_cache_key ::
  "generator \<Rightarrow> unicode_tables \<Rightarrow> world \<Rightarrow> string \<Rightarrow> string \<Rightarrow> string \<Rightarrow> bool
     \<Rightarrow> string option \<Rightarrow> bool \<Rightarrow> error + string" where
  "request_cache_key gen ud w image_path prompt aspect_ratio silent_video second_image_path
       auto_reference_images =
     and_then (load_image gen w image_path) (\<lambda>(image_data, mime_type, source_path_str).
     and_then (load_second_image gen w second_image_path) (\<lambda>second.
     generate_cache_key w source_path_str
       (final_prompt ud prompt image_path second_image_path auto_reference_images silent_video)
       aspect_ratio (map_option (\<lambda>(d, m, second_source_path_str). second_source_path_str) second)))"

subsection \<open>The fields of the submitted instance\<close>

text \<open>The keys of the first entry of \<open>instances\<close> in a payload.\<close>

definition instance_keys :: "json \<Rightarrow> string list" where
  "instance_keys payload =
     (case payload of
        JObj kvs \<Rightarrow>
          (case map_of kvs ''instances'' of
             Some (JList (JObj instance_data # rest)) \<Rightarrow> map fst instance_data
           | _ \<Rightarrow> [])
      | _ \<Rightarrow> [])"

section \<open>\<open>GeminiVideoService.poll_operation_status\<close>\<close>









subsection \<open>A poll answer that does not report completion\<close>


section \<open>Example inputs\<close>

text \<open>
  The part of the Unicode tables for U+0080 to U+00FF: the capital letters U+00C0 to
  U+00DE other than the multiplication sign are lowered by adding 32, and U+0080 to
  U+00A0 and the soft hyphen U+00AD are not printable. The examples below use it on
  ASCII text only.
\<close>

definition latin1_tables :: unicode_tables where
  "latin1_tables = \<lparr>
     lower_full = (\<lambda>left c right.
        case c of
          [l, b] \<Rightarrow>
            if l = CHR 0xC3 \<and> (0x80::nat) \<le> of_char b \<and> of_char b \<le> (0x9E::nat)
               \<and> b \<noteq> CHR 0x97
            then [l, char_of (of_char b + (0x20::nat))] else c
        | _ \<Rightarrow> c),
     printable = (\<lambda>cp. 0xA0 < cp \<and> cp \<noteq> 0xAD)\<rparr>"

definition example_service :: video_service where
  "example_service = \<lparr>svc_api_key = ''SECRET'',
     svc_base_url = ''https://generativelanguage.googleapis.com/v1beta'', svc_verbose = False\<rparr>"

definition video_response :: "string \<Rightarrow> bytes \<Rightarrow> http_response" where
  "video_response u body = \<lparr>status_code = 200, reason = ''OK'', response_url = u,
     content_type = Some ''video/mp4'', content = body, json_body = Inl ''not JSON''\<rparr>"

text \<open>
  A world whose server answers every GET: an empty body at one address, the bytes of
  the requested URL itself everywhere else, which makes the URL that was fetched visible
  in the result.
\<close>

definition download_world :: world where
  "download_world = \<lparr>fs = (\<lambda>p. None),
     http_get = (\<lambda>u headers. if u = ''https://cdn.example/empty.mp4''
                  then Responds (video_response u [])
                  else Responds (video_response u (encode u))),
     http_post = (\<lambda>u headers payload. Raises ''no route''),
     guess_type = (\<lambda>p. None),
     posted = []\<rparr>"

text \<open>A completed operation that the safety filter blocked, with two reasons.\<close>

definition filtered_response :: json where
  "filtered_response =
     JObj [(''name'', JStr ''operations/op1''), (''done'', JBool True),
           (''response'', JObj [(''generateVideoResponse'',
              JObj [(''raiMediaFilteredCount'', JInt 1),
                    (''raiMediaFilteredReasons'',
                     JList [JStr ''audio blocked'', JStr ''celebrity''])])])]"

text \<open>The same, with one reason that is a number and not a string.\<close>

definition numbered_reason_response :: json where
  "numbered_reason_response =
     JObj [(''name'', JStr ''operations/op1''), (''done'', JBool True),
           (''response'', JObj [(''generateVideoResponse'',
              JObj [(''raiMediaFilteredCount'', JInt 1),
                    (''raiMediaFilteredReasons'', JList [JInt 7])])])]"

text \<open>
  A shop whose media directory holds the image of the specification's scenario (32 bytes
  \<open>0xFF\<close>) and the video that was generated for it earlier.
\<close>

definition cache_generator :: generator where
  "cache_generator = \<lparr>api_key = ''SECRET'', base_path = Path ''/srv/shop'',
     video_dir = Path ''/srv/shop/pub/media/video'', base_url = Some ''https://shop.example/'',
     verbose = False, video_service = example_service\<rparr>"

definition cache_world :: world where
  "cache_world = \<lparr>
     fs = (\<lambda>p. if p = ''/srv/shop/pub/media/a.jpg'' then Some (File (replicate 32 0xFF))
               else if p = ''/srv/shop/pub/media/video/veo_68945617fa171e7a02ee24197e3ff85f.mp4''
                 then Some (File [0x00, 0x01])
               else None),
     http_get = (\<lambda>u headers. Raises ''offline''),
     http_post = (\<lambda>u headers payload. Raises ''offline''),
     guess_type = (\<lambda>p. Some ''image/jpeg''),
     posted = []\<rparr>"

text \<open>
  A studio with two images and an empty file, whose remote service accepts every
  submission and answers with an operation name; and the same studio after the video
  of the two-image request below was stored.
\<close>

definition operation_response :: http_response where
  "operation_response = \<lparr>status_code = 200, reason = ''OK'',
     response_url = ''https://generativelanguage.googleapis.com/v1beta/models/veo-3.1-generate-preview:predictLongRunning'',
     content_type = Some ''application/json'', content = [],
     json_body = Inr (JObj [(''name'', JStr ''operations/op1'')])\<rparr>"

definition studio_world :: world where
  "studio_world = \<lparr>
     fs = (\<lambda>p. if p = ''/srv/shop/pub/media/front.jpg'' then Some (File [0x01, 0x02, 0x03])
               else if p = ''/srv/shop/pub/media/back.png'' then Some (File [0x04])
               else if p = ''/srv/shop/pub/media/empty.png'' then Some (File [])
               else None),
     http_get = (\<lambda>u headers. Raises ''offline''),
     http_post = (\<lambda>u headers payload. Responds operation_response),
     guess_type = (\<lambda>p. if p = ''/srv/shop/pub/media/front.jpg'' then Some ''image/jpeg''
                       else if p = ''/srv/shop/pub/media/back.png'' then Some ''image/png''
                       else if p = ''/srv/shop/pub/media/empty.png'' then Some ''image/png''
                       else None),
     posted = []\<rparr>"

definition studio_generator :: generator where
  "studio_generator = \<lparr>api_key = ''SECRET'', base_path = Path ''/srv/shop'',
     video_dir = Path ''/srv/shop/pub/media/video'', base_url = None,
     verbose = False, video_service = example_service\<rparr>"



definition studio_world_cached :: world where
  "studio_world_cached = studio_world\<lparr>
     fs := (\<lambda>p. if p = ''/srv/shop/pub/media/video/veo_3bcbfc2e6a6e982f5197e81c6e24f0bf.mp4''
                then Some (File [0x00]) else fs studio_world p)\<rparr>"

section \<open>Facts about the string operations\<close>

lemma str_contains_sublist: "str_contains sub s = sublist sub s"
  by (induction s) (auto simp: sublist_Cons_right)

text \<open>Lowering works from left to right: the lowered rest of a text ends its lowered whole.\<close>

lemma lower_from_append:
  "\<exists>pre. lower_from ud left (a @ s) = pre @ lower_from ud (left @ a) s"
proof (induction a arbitrary: left)
  case Nil
  show ?case by simp
next
  case (Cons c a)
  from Cons.IH [of "left @ [c]"] obtain pre where
    "lower_from ud (left @ [c]) (a @ s) = pre @ lower_from ud (left @ c # a) s"
    by auto
  then show ?case by simp
qed

lemma lower_from_ascii:
  "list_all is_ascii k \<Longrightarrow>
     lower_from ud left (k @ s) = map lower_char k @ lower_from ud (left @ k) s"
  by (induction k arbitrary: left) simp_all

text \<open>The context sentence, lowered by any tables, contains \<open>image1\<close>.\<close>

lemma context_sentence_has_image1:
  "str_contains ''image1'' (str_lower ud (context_sentence n1 n2 @ rest))"
proof -
  let ?a = "''Context: You have two images - '' @ [CHR 0x27] @ n1 @ [CHR 0x27] @ '' (''"
  let ?b = "''/first image) and '' @ [CHR 0x27] @ n2 @ [CHR 0x27]
              @ '' (image2/second image). '' @ rest"
  have split: "context_sentence n1 n2 @ rest = ?a @ ''image1'' @ ?b"
    by (simp add: context_sentence_def)
  obtain pre where "lower_from ud [] (?a @ ''image1'' @ ?b)
                      = pre @ lower_from ud ([] @ ?a) (''image1'' @ ?b)"
    using lower_from_append [of ud "[]" ?a "''image1'' @ ?b"] by blast
  moreover have "lower_from ud ([] @ ?a) (''image1'' @ ?b)
                   = map lower_char ''image1'' @ lower_from ud (([] @ ?a) @ ''image1'') ?b"
    by (rule lower_from_ascii) (simp add: is_ascii_def)
  moreover have "map lower_char ''image1'' = ''image1''"
    by (simp add: lower_char_def)
  ultimately have "str_lower ud (context_sentence n1 n2 @ rest)
                     = pre @ ''image1'' @ lower_from ud (([] @ ?a) @ ''image1'') ?b"
    unfolding str_lower_def split by simp
  then show ?thesis
    unfolding str_contains_sublist by (metis sublist_appendI)
qed

lemma has_reference_context:
  "has_reference ud (context_sentence n1 n2 @ rest) n1' n2'"
  using context_sentence_has_image1 [of ud n1 n2 rest]
  by (simp add: has_reference_def reference_keywords_def)

lemma final_prompt_unfold:
  "second \<noteq> [] \<Longrightarrow>
   final_prompt ud prompt image_path (Some second) True silent_video =
     (let enhanced =
            (if has_reference ud prompt (get_image_reference_name image_path)
                  (get_image_reference_name second)
             then prompt
             else context_sentence (get_image_reference_name image_path)
                    (get_image_reference_name second) @ str_strip prompt)
      in if silent_video then str_strip enhanced @ '' silent video'' else enhanced)"
  by (simp add: final_prompt_def enhance_prompt_with_image_references_def Let_def)

section \<open>Facts about the responses of the service\<close>

lemma and_then_simps [simp]:
  "and_then (Inl e) f = Inl e"
  "and_then (Inr v) f = f v"
  by (simp_all add: and_then_def)

lemma reasons_text_strings: "reasons_text ud (JList (map JStr rs)) = Inr (str_join '', '' rs)"
  by (simp add: reasons_text_def list_all_iff comp_def)

lemma safety_not_generic: "safety_filter_message a b \<noteq> no_video_uri_message"
  by (simp add: safety_filter_message_def no_video_uri_message_def)

text \<open>
  What \<open>extract_video_uri\<close> does with a response whose \<open>generateVideoResponse\<close> has the
  field \<open>raiMediaFilteredReasons\<close>: it renders the reasons, which may raise, and then
  raises the safety-filter error with the count of the response, or with the number of
  reasons (1 for a value that is not a list) when the response has no count.
\<close>

lemma extract_video_uri_filtered:
  assumes "map_of operation_data ''response'' = Some (JObj response_data)"
    and "map_of response_data ''generateVideoResponse'' = Some (JObj gen_res)"
    and "map_of gen_res ''raiMediaFilteredReasons'' = Some reasons"
  shows "extract_video_uri ud (JObj operation_data) =
      and_then (reasons_text ud reasons) (\<lambda>reasons_str.
        Inl (RuntimeError (safety_filter_message reasons_str
          (py_str ud (case map_of gen_res ''raiMediaFilteredCount'' of
                        None \<Rightarrow> default_filtered_count reasons
                      | Some filtered_count \<Rightarrow> filtered_count)))))"
  using assms by (simp add: extract_video_uri_def split: option.split)

text \<open>
  Reasons that are strings, or a value that is not a list, give the safety-filter error
  with these reasons; a list with an element that is not a string gives \<open>TypeError\<close>.
\<close>

lemma reasons_text_cases:
  "reasons_text ud (JList xs) =
     (if list_all (\<lambda>x. the_str x \<noteq> None) xs
      then Inr (str_join '', '' (map (\<lambda>x. the (the_str x)) xs)) else Inl TypeError)"
  "reasons_text ud JNull = Inr ''None''"
  "reasons_text ud (JBool b) = Inr (if b then ''True'' else ''False'')"
  "reasons_text ud (JInt i) = Inr (show_int i)"
  "reasons_text ud (JStr s) = Inr s"
  "reasons_text ud (JObj kvs) = Inr (py_repr ud (JObj kvs))"
  by (simp_all add: reasons_text_def py_str_def)

section \<open>Facts about the video locator\<close>

lemma sublist_takeWhile: "sublist (takeWhile P xs) xs"
  unfolding sublist_def
  by (rule exI [of _ "[]"], rule exI [of _ "dropWhile P xs"]) simp

lemma sublist_dropWhile: "sublist (dropWhile P xs) xs"
  unfolding sublist_def
  by (rule exI [of _ "takeWhile P xs"], rule exI [of _ "[]"]) simp

lemma sublist_drop: "sublist (drop n xs) xs"
  unfolding sublist_def
  by (rule exI [of _ "take n xs"], rule exI [of _ "[]"]) simp

lemma str_split_not_Nil: "str_split c s \<noteq> []"
  by (induction s) (simp_all split: list.split)

lemma str_split_hd_prefix: "str_split c s = g # gs \<Longrightarrow> prefix g s"
proof (induction s arbitrary: g gs)
  case Nil
  then show ?case by simp
next
  case (Cons x s)
  then show ?case
    by (cases "str_split c s") (auto split: if_splits)
qed

lemma split_field_sublist: "f \<in> set (str_split c s) \<Longrightarrow> sublist f s"
proof (induction s arbitrary: f)
  case Nil
  then show ?case by simp
next
  case (Cons x s)
  obtain g gs where split: "str_split c s = g # gs"
    using str_split_not_Nil [of c s] by (cases "str_split c s") simp_all
  show ?case
  proof (cases "x = c")
    case True
    with Cons.prems have "f = [] \<or> f \<in> set (str_split c s)" by simp
    then show ?thesis using Cons.IH by (auto simp: sublist_Cons_right)
  next
    case False
    with split Cons.prems have "f = x # g \<or> f \<in> set gs" by simp
    then show ?thesis
    proof
      assume f: "f = x # g"
      have "prefix g s" using split by (rule str_split_hd_prefix)
      then show ?thesis using f by (simp add: sublist_Cons_right)
    next
      assume "f \<in> set gs"
      then have "sublist f s" using Cons.IH split by simp
      then show ?thesis by (simp add: sublist_Cons_right)
    qed
  qed
qed

lemma carries_credential_contains_key:
  assumes "carries_credential u"
  shows "str_contains ''key='' u"
proof -
  from assms obtain f where f: "f \<in> set (str_split CHR ''&'' (uri_query u))"
    and p: "prefix ''key='' f"
    by (auto simp: carries_credential_def list_ex_iff startswith_def)
  have "sublist ''key='' f" using p by (rule prefix_imp_sublist)
  also have "sublist f (uri_query u)" using f by (rule split_field_sublist)
  also have "sublist (uri_query u) (dropWhile (\<lambda>c. c \<noteq> CHR ''?'') (before_char CHR ''#'' u))"
    unfolding uri_query_def by (rule sublist_drop)
  also have "sublist \<dots> (before_char CHR ''#'' u)" by (rule sublist_dropWhile)
  also have "sublist \<dots> u" unfolding before_char_def by (rule sublist_takeWhile)
  finally show ?thesis by (simp add: str_contains_sublist)
qed

text \<open>A locator that carries the credential as a query parameter is fetched as it is.\<close>

lemma download_video_with_credential:
  "carries_credential video_uri \<Longrightarrow>
     download_video svc w video_uri = fetch_video svc w video_uri"
  by (simp add: download_video_def video_request_uri_def carries_credential_contains_key)

section \<open>Facts about submission and the cache\<close>

text \<open>
  A second image whose data or MIME type is absent or empty is left out of the payload:
  the payload, its instance and the whole call are those of the call without a second
  image.
\<close>

lemma submit_payload_second_image_ignored:
  assumes "second_image_data = None \<or> second_image_data = Some []
         \<or> second_mime_type = None \<or> second_mime_type = Some []"
  shows "submit_payload prompt image_data mime_type aspect_ratio second_image_data second_mime_type
           = submit_payload prompt image_data mime_type aspect_ratio None None"
    and "''image2'' \<notin> set (instance_keys (submit_payload prompt image_data mime_type aspect_ratio
                                  second_image_data second_mime_type))"
    and "submit_video_generation_request svc builtin_text w prompt image_data mime_type
             aspect_ratio second_image_data second_mime_type
           = submit_video_generation_request svc builtin_text w prompt image_data mime_type
               aspect_ratio None None"
proof -
  show same: "submit_payload prompt image_data mime_type aspect_ratio second_image_data
                second_mime_type
           = submit_payload prompt image_data mime_type aspect_ratio None None"
    using assms by (auto simp: submit_payload_def split: option.splits)
  show "''image2'' \<notin> set (instance_keys (submit_payload prompt image_data mime_type aspect_ratio
                                  second_image_data second_mime_type))"
    unfolding same by (simp add: submit_payload_def instance_keys_def)
  show "submit_video_generation_request svc builtin_text w prompt image_data mime_type
             aspect_ratio second_image_data second_mime_type
           = submit_video_generation_request svc builtin_text w prompt image_data mime_type
               aspect_ratio None None"
    by (simp add: submit_video_generation_request_def same)
qed

lemma submit_video_generation_request_posted:
  "posted (snd (submit_video_generation_request svc builtin_text w prompt image_data mime_type
                  aspect_ratio second_image_data second_mime_type)) = posted w
   \<or> posted (snd (submit_video_generation_request svc builtin_text w prompt image_data mime_type
                  aspect_ratio second_image_data second_mime_type))
      = posted w @ [(submit_endpoint svc,
           submit_payload prompt image_data mime_type aspect_ratio second_image_data
             second_mime_type)]"
  by (simp add: submit_video_generation_request_def Let_def
           split: sum.splits option.splits http_result.splits)

lemma load_second_image_given:
  assumes "second \<noteq> []" and "load_second_image gen w (Some second) = Inr loaded"
  shows "\<exists>data2 mime2 source2. load_image gen w second = Inr (data2, mime2, source2)
           \<and> loaded = Some (data2, mime2, source2)"
  using assms by (cases "load_image gen w second") (auto simp: load_second_image_def)

lemma generate_video_from_image_cached:
  assumes "is_available gen"
    and "request_cache_key gen ud w image_path prompt aspect_ratio silent_video second_image_path
           auto_reference_images = Inr cache_key"
    and "get_cached_video gen w cache_key = Some cached"
  shows "generate_video_from_image gen ud builtin_text w image_path prompt aspect_ratio
           silent_video second_image_path auto_reference_images = (Inr (FromCache cached), w)"
  using assms
  by (auto simp: generate_video_from_image_def request_cache_key_def Let_def
           split: sum.splits prod.splits)

lemma generate_video_from_image_started:
  assumes "fst (generate_video_from_image gen ud builtin_text w image_path prompt aspect_ratio
             silent_video second_image_path auto_reference_images) = Inr (Started op)"
  shows "\<exists>image_data mime_type source second.
           load_image gen w image_path = Inr (image_data, mime_type, source)
         \<and> load_second_image gen w second_image_path = Inr second
         \<and> generate_cache_key w source
              (final_prompt ud prompt image_path second_image_path auto_reference_images silent_video)
              aspect_ratio (map_option (\<lambda>(d, m, s). s) second) = Inr (cacheKey op)
         \<and> posted (snd (generate_video_from_image gen ud builtin_text w image_path prompt
              aspect_ratio silent_video second_image_path auto_reference_images))
            = posted w @ [(submit_endpoint (video_service gen),
                submit_payload
                  (final_prompt ud prompt image_path second_image_path auto_reference_images
                     silent_video)
                  image_data mime_type aspect_ratio
                  (map_option (\<lambda>(d, m, s). d) second) (map_option (\<lambda>(d, m, s). m) second))]"
  using assms
  by (auto simp: generate_video_from_image_def submit_video_generation_request_def Let_def
           split: if_splits sum.splits prod.splits option.splits http_result.splits)

lemma generate_video_from_image_from_cache:
  assumes "fst (generate_video_from_image gen ud builtin_text w image_path prompt aspect_ratio
             silent_video second_image_path auto_reference_images) = Inr (FromCache cached)"
  shows "\<exists>image_data mime_type source second cache_key.
           load_image gen w image_path = Inr (image_data, mime_type, source)
         \<and> load_second_image gen w second_image_path = Inr second
         \<and> generate_cache_key w source
              (final_prompt ud prompt image_path second_image_path auto_reference_images silent_video)
              aspect_ratio (map_option (\<lambda>(d, m, s). s) second) = Inr cache_key
         \<and> get_cached_video gen w cache_key = Some cached
         \<and> posted (snd (generate_video_from_image gen ud builtin_text w image_path prompt
              aspect_ratio silent_video second_image_path auto_reference_images))
            = posted w"
  using assms
  by (auto simp: generate_video_from_image_def submit_video_generation_request_def Let_def
           split: if_splits sum.splits prod.splits option.splits http_result.splits)

lemma generate_video_from_image_posted:
  "posted (snd (generate_video_from_image gen ud builtin_text w image_path prompt aspect_ratio
                  silent_video second_image_path auto_reference_images)) = posted w
   \<or> (\<exists>image_data mime_type source second.
           load_image gen w image_path = Inr (image_data, mime_type, source)
         \<and> load_second_image gen w second_image_path = Inr second
         \<and> posted (snd (generate_video_from_image gen ud builtin_text w image_path prompt
              aspect_ratio silent_video second_image_path auto_reference_images))
            = posted w @ [(submit_endpoint (video_service gen),
                submit_payload
                  (final_prompt ud prompt image_path second_image_path auto_reference_images
                     silent_video)
                  image_data mime_type aspect_ratio
                  (map_option (\<lambda>(d, m, s). d) second) (map_option (\<lambda>(d, m, s). m) second))])"
proof -
  let ?fp = "final_prompt ud prompt image_path second_image_path auto_reference_images silent_video"
  note sub = submit_video_generation_request_posted
  show ?thesis
  proof (cases "load_image gen w image_path")
    case (Inl e)
    then show ?thesis by (simp add: generate_video_from_image_def)
  next
    case (Inr loaded)
    obtain image_data mime_type source where l: "loaded = (image_data, mime_type, source)"
      by (cases loaded)
    show ?thesis
    proof (cases "load_second_image gen w second_image_path")
      case (Inl e)
      then show ?thesis using Inr l by (simp add: generate_video_from_image_def)
    next
      case second: (Inr second)
      show ?thesis
        using Inr l second
          sub [of "video_service gen" builtin_text w ?fp image_data mime_type aspect_ratio
                  "map_option (\<lambda>(d, m, s). d) second" "map_option (\<lambda>(d, m, s). m) second"]
        by (auto simp: generate_video_from_image_def Let_def
                 split: sum.splits option.splits prod.splits)
    qed
  qed
qed

section \<open>Facts about the digests\<close>

lemma unat_of_char: "unat (of_char c :: 8 word) = of_char c"
proof -
  have "(of_char c :: 8 word) = of_nat (of_char c)"
    by (simp add: of_nat_of_char)
  then have "unat (of_char c :: 8 word) = (of_char c :: nat) mod 2 ^ 8"
    by (simp only: unat_of_nat) simp
  then show ?thesis by simp
qed

lemma encode_eq_iff: "encode a = encode b \<longleftrightarrow> a = b"
proof -
  have "inj (of_char :: char \<Rightarrow> 8 word)"
  proof (rule injI)
    fix c d :: char
    assume "(of_char c :: 8 word) = of_char d"
    then have "unat (of_char c :: 8 word) = unat (of_char d :: 8 word)" by simp
    then show "c = d" by (simp add: unat_of_char)
  qed
  then have "inj (map (of_char :: char \<Rightarrow> 8 word))" by simp
  then show ?thesis by (auto simp: encode_def dest: injD)
qed

lemma md5_empty: "md5_hexdigest [] = ''d41d8cd98f00b204e9800998ecf8427e''"
  by code_simp

text \<open>
  The text that is hashed for a second image that is an empty file is not the text
  that is hashed without a second image.
\<close>

lemma cache_data_second_field:
  "encode (cache_data image_hash (md5_hexdigest []) prompt aspect_ratio)
     \<noteq> encode (cache_data image_hash [] prompt aspect_ratio)"
  by (simp add: encode_eq_iff cache_data_def md5_empty)

lemma md5_scenario:
  "md5_hexdigest (encode
     (md5_hexdigest (replicate 32 0xFF) @ '':'' @ '''' @ '':'' @ ''zoom in'' @ '':'' @ ''16:9''))
   = ''68945617fa171e7a02ee24197e3ff85f''"
  by code_simp

lemma md5_key_empty_second:
  "md5_hexdigest (encode (cache_data (md5_hexdigest [0x01, 0x02, 0x03]) (md5_hexdigest [])
      ''zoom'' ''16:9'')) = ''a4e1d55abc9a2aa5054fca2f118d8be1''"
  by code_simp

lemma md5_key_no_second:
  "md5_hexdigest (encode (cache_data (md5_hexdigest [0x01, 0x02, 0x03]) [] ''zoom'' ''16:9''))
     = ''c82a7f55925098ebeefd39857278662c''"
  by code_simp

lemma md5_key_two_images:
  "md5_hexdigest (encode (cache_data (md5_hexdigest [0x01, 0x02, 0x03]) (md5_hexdigest [0x04])
      (context_sentence ''front'' ''back'' @ ''Pan left'') ''16:9''))
   = ''3bcbfc2e6a6e982f5197e81c6e24f0bf''"
  by code_simp

section \<open>Facts about the example inputs\<close>

lemmas eval_path = is_absolute_def is_url_def startswith_def Path_def path_str_def posix_root_def
  joinpath_def

lemma shop_hash:
  "get_image_hash cache_world ''/srv/shop/pub/media/a.jpg'' = Inr (md5_hexdigest (replicate 32 0xFF))"
  by (simp add: get_image_hash_def read_file_def eval_path cache_world_def)

lemma shop_load:
  "load_image cache_generator cache_world ''a.jpg''
     = Inr (replicate 32 0xFF, ''image/jpeg'', ''/srv/shop/pub/media/a.jpg'')"
  by (simp add: load_image_def resolve_image_path_def read_file_def or_jpeg_def eval_path
        cache_generator_def cache_world_def)

lemma request_cache_key_scenario:
  "request_cache_key cache_generator ud cache_world ''a.jpg'' ''zoom in'' ''16:9'' False None True
     = Inr ''68945617fa171e7a02ee24197e3ff85f''"
  using md5_scenario
  by (simp add: request_cache_key_def shop_load load_second_image_def final_prompt_def
        enhance_prompt_with_image_references_def generate_cache_key_def shop_hash cache_data_def)

lemma studio_names:
  "get_image_reference_name ''front.jpg'' = ''front''"
  "get_image_reference_name ''media/front.jpg'' = ''front''"
  "get_image_reference_name ''back.png'' = ''back''"
  by code_simp+

lemma studio_prompts:
  "\<not> has_reference latin1_tables ''Pan left '' ''front'' ''back''"
  "\<not> has_reference latin1_tables ''Pan left'' ''front'' ''back''"
  "has_reference latin1_tables ''Use IMAGE1'' ''front'' ''back''"
  "has_reference latin1_tables ''Use image1'' ''front'' ''back''"
  "\<not> mentions_reference ''Pan left '' ''front'' ''back''"
  "\<not> mentions_reference ''Use IMAGE1'' ''front'' ''back''"
  by code_simp+

lemma studio_strips:
  "str_strip ''Pan left '' = ''Pan left''"
  "str_strip ''Pan left'' = ''Pan left''"
  "str_strip ''Use image1'' = ''Use image1''"
  "str_strip (context_sentence ''front'' ''back'' @ ''Pan left'')
     = context_sentence ''front'' ''back'' @ ''Pan left''"
  "\<not> suffix ''Pan left '' (context_sentence ''front'' ''back'' @ ''Pan left'')"
  by code_simp+

lemmas eval_load = load_image_def resolve_image_path_def read_file_def or_jpeg_def eval_path
  studio_generator_def studio_world_def studio_world_cached_def

lemma studio_loads:
  "load_image studio_generator studio_world ''front.jpg''
     = Inr ([0x01, 0x02, 0x03], ''image/jpeg'', ''/srv/shop/pub/media/front.jpg'')"
  "load_image studio_generator studio_world ''back.png''
     = Inr ([0x04], ''image/png'', ''/srv/shop/pub/media/back.png'')"
  "load_image studio_generator studio_world_cached ''front.jpg''
     = Inr ([0x01, 0x02, 0x03], ''image/jpeg'', ''/srv/shop/pub/media/front.jpg'')"
  "load_image studio_generator studio_world_cached ''back.png''
     = Inr ([0x04], ''image/png'', ''/srv/shop/pub/media/back.png'')"
  by (simp_all add: eval_load)

lemma studio_hashes:
  "get_image_hash studio_world ''/srv/shop/pub/media/front.jpg''
     = Inr (md5_hexdigest [0x01, 0x02, 0x03])"
  "get_image_hash studio_world ''/srv/shop/pub/media/back.png'' = Inr (md5_hexdigest [0x04])"
  "get_image_hash studio_world ''/srv/shop/pub/media/empty.png'' = Inr (md5_hexdigest [])"
  "get_image_hash studio_world_cached ''/srv/shop/pub/media/front.jpg''
     = Inr (md5_hexdigest [0x01, 0x02, 0x03])"
  "get_image_hash studio_world_cached ''/srv/shop/pub/media/back.png''
     = Inr (md5_hexdigest [0x04])"
  by (simp_all add: get_image_hash_def read_file_def eval_path studio_world_def
        studio_world_cached_def)

text \<open>
  In the studio the key of the request with the empty file as second image and the key
  of the request without a second image are different digests.
\<close>

lemma studio_empty_second_keys:
  "generate_cache_key studio_world ''/srv/shop/pub/media/front.jpg'' ''zoom'' ''16:9''
     (Some ''/srv/shop/pub/media/empty.png'') = Inr ''a4e1d55abc9a2aa5054fca2f118d8be1''"
  "generate_cache_key studio_world ''/srv/shop/pub/media/front.jpg'' ''zoom'' ''16:9'' None
     = Inr ''c82a7f55925098ebeefd39857278662c''"
  by (simp_all add: generate_cache_key_def studio_hashes md5_key_empty_second md5_key_no_second)

lemma studio_keys:
  "generate_cache_key studio_world ''/srv/shop/pub/media/front.jpg''
     (context_sentence ''front'' ''back'' @ ''Pan left'') ''16:9''
     (Some ''/srv/shop/pub/media/back.png'') = Inr ''3bcbfc2e6a6e982f5197e81c6e24f0bf''"
  "generate_cache_key studio_world_cached ''/srv/shop/pub/media/front.jpg''
     (context_sentence ''front'' ''back'' @ ''Pan left'') ''16:9''
     (Some ''/srv/shop/pub/media/back.png'') = Inr ''3bcbfc2e6a6e982f5197e81c6e24f0bf''"
  by (simp_all add: generate_cache_key_def studio_hashes md5_key_two_images)

lemma studio_prompt:
  "final_prompt latin1_tables ''Pan left '' ''front.jpg'' (Some ''back.png'') True False
     = context_sentence ''front'' ''back'' @ ''Pan left''"
  by (simp add: final_prompt_unfold studio_names studio_prompts studio_strips)

lemma studio_cache:
  "get_cached_video studio_generator studio_world ''3bcbfc2e6a6e982f5197e81c6e24f0bf'' = None"
  "get_cached_video studio_generator studio_world_cached ''3bcbfc2e6a6e982f5197e81c6e24f0bf''
     = Some \<lparr>fromCache = True,
            videoUrl = ''/pub/media/video/veo_3bcbfc2e6a6e982f5197e81c6e24f0bf.mp4'',
            videoPath = ''/srv/shop/pub/media/video/veo_3bcbfc2e6a6e982f5197e81c6e24f0bf.mp4'',
            status = ''completed''\<rparr>"
  by (simp_all add: get_cached_video_def video_filename_def video_url_def
        get_relative_video_path_def relative_to_def eval_path studio_generator_def
        studio_world_def studio_world_cached_def Let_def)

lemma studio_fields:
  "is_available studio_generator"
  "video_service studio_generator = example_service"
  "posted studio_world = []"
  "posted studio_world_cached = []"
  by (simp_all add: is_available_def svc_is_available_def studio_generator_def
        example_service_def studio_world_def studio_world_cached_def)

lemma studio_submit:
  "fst (submit_video_generation_request (video_service studio_generator) builtin_text studio_world
          prompt image_data mime_type aspect_ratio second_image_data second_mime_type)
     = Inr \<lparr>sr_operationName = JStr ''operations/op1'', sr_done = JBool False,
            sr_status = ''running''\<rparr>"
  by (simp add: submit_video_generation_request_def svc_is_available_def studio_generator_def
        example_service_def studio_world_def operation_response_def raise_for_status_def
        read_submit_response_def Let_def)

lemma studio_run:
  "fst (generate_video_from_image studio_generator latin1_tables (\<lambda>e. ''error'') studio_world
          ''front.jpg'' ''Pan left '' ''16:9'' False (Some ''back.png'') True)
   = Inr (Started \<lparr>operationName = JStr ''operations/op1'',
                   cacheKey = ''3bcbfc2e6a6e982f5197e81c6e24f0bf'',
                   op_done = JBool False, op_status = ''running''\<rparr>)"
  using studio_submit [of "\<lambda>e. ''error''" "context_sentence ''front'' ''back'' @ ''Pan left''"
          "[0x01, 0x02, 0x03]" "''image/jpeg''" "''16:9''" "Some [0x04]" "Some ''image/png''"]
  by (auto simp: generate_video_from_image_def studio_fields studio_loads load_second_image_def
        studio_prompt studio_keys studio_cache split: prod.splits)

lemma studio_cached_run:
  "fst (generate_video_from_image studio_generator latin1_tables (\<lambda>e. ''error'')
          studio_world_cached ''front.jpg'' ''Pan left '' ''16:9'' False (Some ''back.png'') True)
   = Inr (FromCache \<lparr>fromCache = True,
            videoUrl = ''/pub/media/video/veo_3bcbfc2e6a6e982f5197e81c6e24f0bf.mp4'',
            videoPath = ''/srv/shop/pub/media/video/veo_3bcbfc2e6a6e982f5197e81c6e24f0bf.mp4'',
            status = ''completed''\<rparr>)"
  by (simp add: generate_video_from_image_def studio_fields studio_loads load_second_image_def
        studio_prompt studio_keys studio_cache)

section \<open>Facts about polling\<close>








section \<open>Verified properties\<close>

text \<open>
  C10. Prompt enhancement is idempotent: enhancing the output of
  \<open>_enhance_prompt_with_image_references\<close> again, with the same image paths and the same
  auto-reference setting, returns that output unchanged. When the first call adds the
  context sentence, the sentence contains \<open>image1\<close>, which the second call recognises.
\<close>

theorem enhance_prompt_idempotent:
  "enhance_prompt_with_image_references ud
     (enhance_prompt_with_image_references ud prompt image_path second_image_path auto_reference)
     image_path second_image_path auto_reference
   = enhance_prompt_with_image_references ud prompt image_path second_image_path auto_reference"
  by (simp add: enhance_prompt_with_image_references_def Let_def has_reference_context
        split: option.split)

text \<open>The theorem at a two-image request whose prompt names neither image.\<close>

theorem enhance_prompt_idempotent_witness:
  "enhance_prompt_with_image_references latin1_tables
     (enhance_prompt_with_image_references latin1_tables ''Pan left '' ''media/front.jpg''
        (Some ''back.png'') True)
     ''media/front.jpg'' (Some ''back.png'') True
   = ''Context: You have two images - 'front' (image1/first image) and 'back' (image2/second image). Pan left''"
  using enhance_prompt_idempotent
          [of latin1_tables "''Pan left ''" "''media/front.jpg''" "Some ''back.png''" True]
  by (simp add: enhance_prompt_with_image_references_def studio_names studio_prompts
        studio_strips context_sentence_def)

text \<open>
  C3 fails on the code for a response whose list of reasons has an element that is not
  a string: the docstring of \<open>extract_video_uri\<close> promises a \<open>RuntimeError\<close> when the
  operation was filtered, but joining the reasons raises \<open>TypeError\<close> before the
  safety-filter error is built, so no message with the reasons and the count is raised.
  The same response with reasons that are strings raises the safety-filter error with
  these reasons and the count of the response.
\<close>

theorem extract_video_uri_numbered_reason:
  "extract_video_uri ud numbered_reason_response = Inl TypeError
   \<and> extract_video_uri ud numbered_reason_response
       \<noteq> Inl (RuntimeError (safety_filter_message reasons_str filtered_count))
   \<and> extract_video_uri ud filtered_response
       = Inl (RuntimeError (safety_filter_message ''audio blocked, celebrity'' ''1''))"
  by (simp add: extract_video_uri_def numbered_reason_response_def filtered_response_def
        reasons_text_def py_str_def show_int_def)

text \<open>
  C6. A download whose response body is empty raises instead of returning zero bytes:
  the \<open>RuntimeError\<close> for empty content when the status passes \<open>raise_for_status\<close>. A
  non-empty body with such a status is returned as it is.
\<close>

theorem download_video_body:
  assumes "http_get w (video_request_uri svc video_uri) [(''x-goog-api-key'', svc_api_key svc)]
             = Responds response"
  shows "(content response = [] \<longrightarrow>
            isl (download_video svc w video_uri)
            \<and> (status_code response < 400 \<or> 600 \<le> status_code response \<longrightarrow>
                 download_video svc w video_uri =
                   Inl (RuntimeError ''Video download returned empty content'')))
       \<and> (content response \<noteq> [] \<and> (status_code response < 400 \<or> 600 \<le> status_code response) \<longrightarrow>
            download_video svc w video_uri = Inr (content response))"
  using assms
  by (auto simp: download_video_def fetch_video_def raise_for_status_def split: option.splits)

text \<open>The theorem at the empty address of \<open>download_world\<close> and at another one.\<close>

theorem download_video_body_witness:
  "download_video example_service download_world ''https://cdn.example/empty.mp4''
     = Inl (RuntimeError ''Video download returned empty content'')
   \<and> download_video example_service download_world ''https://cdn.example/v''
     = Inr (encode ''https://cdn.example/v'')"
proof -
  have 1: "http_get download_world
             (video_request_uri example_service ''https://cdn.example/empty.mp4'')
             [(''x-goog-api-key'', svc_api_key example_service)]
           = Responds (video_response ''https://cdn.example/empty.mp4'' [])"
    by (simp add: download_world_def video_request_uri_def)
  have 2: "http_get download_world
             (video_request_uri example_service ''https://cdn.example/v'')
             [(''x-goog-api-key'', svc_api_key example_service)]
           = Responds (video_response ''https://cdn.example/v'' (encode ''https://cdn.example/v''))"
    by (simp add: download_world_def video_request_uri_def)
  show ?thesis
    using download_video_body [OF 1] download_video_body [OF 2]
    by (simp add: video_response_def encode_def)
qed

text \<open>
  C7 fails on the code at two locators on the trusted host that carry no credential.
  The comment in \<open>download_video\<close> says that the API key is appended when the locator is
  a Google API URI and does not have it; the code tests for the text \<open>key=\<close> anywhere, so
  a locator with a parameter \<open>sortkey\<close> is fetched as it is, without the key; and it
  appends at the end of the text, so for a locator with a fragment the key lands in the
  fragment and the fetched locator still carries no credential in its query.
\<close>

theorem download_video_key_not_appended:
  "uri_host ''https://generativelanguage.googleapis.com/v1beta/files/f1:download?alt=media&sortkey=1''
     = trusted_host
   \<and> \<not> carries_credential
        ''https://generativelanguage.googleapis.com/v1beta/files/f1:download?alt=media&sortkey=1''
   \<and> video_request_uri example_service
        ''https://generativelanguage.googleapis.com/v1beta/files/f1:download?alt=media&sortkey=1''
     = ''https://generativelanguage.googleapis.com/v1beta/files/f1:download?alt=media&sortkey=1''
   \<and> download_video example_service download_world
        ''https://generativelanguage.googleapis.com/v1beta/files/f1:download?alt=media&sortkey=1''
     = Inr (encode ''https://generativelanguage.googleapis.com/v1beta/files/f1:download?alt=media&sortkey=1'')
   \<and> uri_host ''https://generativelanguage.googleapis.com/v1beta/files/f1#frag'' = trusted_host
   \<and> \<not> carries_credential ''https://generativelanguage.googleapis.com/v1beta/files/f1#frag''
   \<and> video_request_uri example_service
        ''https://generativelanguage.googleapis.com/v1beta/files/f1#frag''
     = ''https://generativelanguage.googleapis.com/v1beta/files/f1#frag?key=SECRET''
   \<and> uri_query ''https://generativelanguage.googleapis.com/v1beta/files/f1#frag?key=SECRET'' = []
   \<and> \<not> carries_credential
        ''https://generativelanguage.googleapis.com/v1beta/files/f1#frag?key=SECRET''
   \<and> download_video example_service download_world
        ''https://generativelanguage.googleapis.com/v1beta/files/f1#frag''
     = Inr (encode ''https://generativelanguage.googleapis.com/v1beta/files/f1#frag?key=SECRET'')"
  by (simp add: uri_host_def trusted_host_def carries_credential_def uri_query_def before_char_def
        startswith_def video_request_uri_def download_video_def fetch_video_def download_world_def
        example_service_def video_response_def raise_for_status_def encode_def)

text \<open>
  C1. When the service is available and the cache key of a request names an existing
  file \<open>veo_<key>.mp4\<close> in the video directory, \<open>generate_video_from_image\<close> returns
  the cached descriptor (\<open>fromCache\<close> true, status \<open>completed\<close>, the path and the URL of
  that file) and posts nothing to the remote service; a second call with the same
  inputs returns the same.
\<close>

theorem generate_video_from_image_cache_hit:
  assumes "is_available gen"
    and "request_cache_key gen ud w image_path prompt aspect_ratio silent_video second_image_path
           auto_reference_images = Inr cache_key"
    and "fs w (path_str (joinpath (video_dir gen) (''veo_'' @ cache_key @ ''.mp4''))) \<noteq> None"
  shows "generate_video_from_image gen ud builtin_text w image_path prompt aspect_ratio
           silent_video second_image_path auto_reference_images
         = (Inr (FromCache \<lparr>fromCache = True,
               videoUrl = video_url gen (get_relative_video_path gen (''veo_'' @ cache_key @ ''.mp4'')),
               videoPath = path_str (joinpath (video_dir gen) (''veo_'' @ cache_key @ ''.mp4'')),
               status = ''completed''\<rparr>), w)
       \<and> posted (snd (generate_video_from_image gen ud builtin_text w image_path prompt
              aspect_ratio silent_video second_image_path auto_reference_images)) = posted w
       \<and> generate_video_from_image gen ud builtin_text
            (snd (generate_video_from_image gen ud builtin_text w image_path prompt aspect_ratio
               silent_video second_image_path auto_reference_images))
            image_path prompt aspect_ratio silent_video second_image_path auto_reference_images
          = generate_video_from_image gen ud builtin_text w image_path prompt aspect_ratio
              silent_video second_image_path auto_reference_images"
proof -
  have "get_cached_video gen w cache_key =
          Some \<lparr>fromCache = True,
               videoUrl = video_url gen (get_relative_video_path gen (''veo_'' @ cache_key @ ''.mp4'')),
               videoPath = path_str (joinpath (video_dir gen) (''veo_'' @ cache_key @ ''.mp4'')),
               status = ''completed''\<rparr>"
    using assms(3) by (simp add: get_cached_video_def video_filename_def Let_def)
  from generate_video_from_image_cached [OF assms(1) assms(2) this]
  show ?thesis by simp
qed

text \<open>The theorem in the shop: the video of the scenario is served from the cache.\<close>

theorem generate_video_from_image_cache_hit_witness:
  "generate_video_from_image cache_generator latin1_tables (\<lambda>e. ''error'') cache_world ''a.jpg''
     ''zoom in'' ''16:9'' False None True
   = (Inr (FromCache \<lparr>fromCache = True,
        videoUrl = ''https://shop.example/pub/media/video/veo_68945617fa171e7a02ee24197e3ff85f.mp4'',
        videoPath = ''/srv/shop/pub/media/video/veo_68945617fa171e7a02ee24197e3ff85f.mp4'',
        status = ''completed''\<rparr>), cache_world)"
proof -
  have 1: "is_available cache_generator"
    by (simp add: is_available_def svc_is_available_def cache_generator_def example_service_def)
  have 3: "fs cache_world (path_str (joinpath (video_dir cache_generator)
             (''veo_'' @ ''68945617fa171e7a02ee24197e3ff85f'' @ ''.mp4''))) \<noteq> None"
    by (simp add: cache_generator_def cache_world_def joinpath_def Path_def path_str_def
          posix_root_def startswith_def is_absolute_def)
  from generate_video_from_image_cache_hit
         [OF 1 request_cache_key_scenario 3, of latin1_tables "\<lambda>e. ''error''"]
  show ?thesis
    by (simp add: cache_generator_def video_url_def get_relative_video_path_def relative_to_def
          joinpath_def Path_def path_str_def posix_root_def startswith_def is_absolute_def)
qed

text \<open>
  C2. With no second image (none given, or the empty path), the cache key of an image
  with bytes \<open>image_bytes\<close>, read from a local file or fetched from a URL, is the MD5 hex
  digest of: the MD5 hex digest of \<open>image_bytes\<close>, \<open>:\<close>, the empty string, \<open>:\<close>, the
  prompt, \<open>:\<close>, the aspect ratio.
\<close>

theorem generate_cache_key_single_image:
  assumes "(\<not> is_url image_path \<and> fs w (path_str (Path image_path)) = Some (File image_bytes))
         \<or> (is_url image_path
              \<and> (\<exists>response. http_get w image_path [] = Responds response
                     \<and> raise_for_status response = None \<and> content response = image_bytes))"
    and "second_image_path = None \<or> second_image_path = Some []"
  shows "generate_cache_key w image_path prompt aspect_ratio second_image_path =
           Inr (md5_hexdigest (encode
             (md5_hexdigest image_bytes @ '':'' @ '''' @ '':'' @ prompt @ '':'' @ aspect_ratio)))"
proof -
  have "get_image_hash w image_path = Inr (md5_hexdigest image_bytes)"
    using assms(1)
    by (auto simp: get_image_hash_def read_file_def download_image_from_url_def Let_def)
  then show ?thesis
    using assms(2) by (auto simp: generate_cache_key_def cache_data_def)
qed

text \<open>The scenario of the specification: 32 bytes \<open>0xFF\<close>, prompt \<open>zoom in\<close>, ratio \<open>16:9\<close>.\<close>

theorem generate_cache_key_single_image_witness:
  "generate_cache_key cache_world ''/srv/shop/pub/media/a.jpg'' ''zoom in'' ''16:9'' None
     = Inr ''68945617fa171e7a02ee24197e3ff85f''"
proof -
  have "(\<not> is_url ''/srv/shop/pub/media/a.jpg''
          \<and> fs cache_world (path_str (Path ''/srv/shop/pub/media/a.jpg''))
              = Some (File (replicate 32 0xFF)))
        \<or> (is_url ''/srv/shop/pub/media/a.jpg''
             \<and> (\<exists>response. http_get cache_world ''/srv/shop/pub/media/a.jpg'' [] = Responds response
                    \<and> raise_for_status response = None \<and> content response = replicate 32 0xFF))"
    by (simp add: is_url_def startswith_def Path_def path_str_def posix_root_def cache_world_def)
  from generate_cache_key_single_image [OF this, of None "''zoom in''" "''16:9''"]
  show ?thesis by (simp only: md5_scenario) simp
qed

text \<open>
  C8 as stated fails. The enhanced prompt ends with the prompt stripped of its leading
  and trailing white space, so a prompt that ends with a space is not a suffix of the
  final prompt, and with the silent-video option the final prompt ends with
  \<open>silent video\<close>. The references are looked for in the prompt in lower case, so the
  prompt \<open>Use IMAGE1\<close>, which contains none of the keywords and neither image name as
  they are written, gets no context sentence.
\<close>

theorem final_prompt_counterexample:
  "\<not> mentions_reference ''Pan left '' (get_image_reference_name ''front.jpg'')
        (get_image_reference_name ''back.png'')
   \<and> final_prompt latin1_tables ''Pan left '' ''front.jpg'' (Some ''back.png'') True False
       = context_sentence ''front'' ''back'' @ ''Pan left''
   \<and> \<not> suffix ''Pan left ''
         (final_prompt latin1_tables ''Pan left '' ''front.jpg'' (Some ''back.png'') True False)
   \<and> final_prompt latin1_tables ''Pan left'' ''front.jpg'' (Some ''back.png'') True True
       = context_sentence ''front'' ''back'' @ ''Pan left silent video''
   \<and> \<not> mentions_reference ''Use IMAGE1'' (get_image_reference_name ''front.jpg'')
         (get_image_reference_name ''back.png'')
   \<and> final_prompt latin1_tables ''Use IMAGE1'' ''front.jpg'' (Some ''back.png'') True False
       = ''Use IMAGE1''"
  by (simp add: final_prompt_unfold studio_names studio_prompts studio_strips)

text \<open>
  C8, amended. For a request with a second image and auto-reference enabled: when the
  prompt, in lower case, contains none of the reference keywords and neither image
  name in lower case, the final prompt is the context sentence naming both images
  followed by the prompt without its leading and trailing white space; when it
  contains one, the enhancement leaves the prompt unchanged. In both cases a request
  for a silent video strips the result and adds \<open>silent video\<close>. This final prompt is
  the one in every payload the call posts, whatever the outcome of the call, and the
  one hashed into the cache key: the key of the operation that was started, and the
  key under which a video served from the cache was found.
\<close>

theorem final_prompt_two_images:
  assumes "second \<noteq> []"
  shows "(\<not> has_reference ud prompt (get_image_reference_name image_path)
              (get_image_reference_name second) \<longrightarrow>
            final_prompt ud prompt image_path (Some second) True silent_video =
              (if silent_video
               then str_strip (context_sentence (get_image_reference_name image_path)
                      (get_image_reference_name second) @ str_strip prompt) @ '' silent video''
               else context_sentence (get_image_reference_name image_path)
                      (get_image_reference_name second) @ str_strip prompt))
       \<and> (has_reference ud prompt (get_image_reference_name image_path)
              (get_image_reference_name second) \<longrightarrow>
            final_prompt ud prompt image_path (Some second) True silent_video =
              (if silent_video then str_strip prompt @ '' silent video'' else prompt))
       \<and> (posted (snd (generate_video_from_image gen ud builtin_text w image_path prompt
                  aspect_ratio silent_video (Some second) True)) = posted w
          \<or> (\<exists>image_data mime_type source data2 mime2 source2.
               load_image gen w image_path = Inr (image_data, mime_type, source)
             \<and> load_image gen w second = Inr (data2, mime2, source2)
             \<and> posted (snd (generate_video_from_image gen ud builtin_text w image_path prompt
                  aspect_ratio silent_video (Some second) True))
                = posted w @ [(submit_endpoint (video_service gen),
                    submit_payload
                      (final_prompt ud prompt image_path (Some second) True silent_video)
                      image_data mime_type aspect_ratio (Some data2) (Some mime2))]))
       \<and> (fst (generate_video_from_image gen ud builtin_text w image_path prompt aspect_ratio
                 silent_video (Some second) True) = Inr (Started op) \<longrightarrow>
            (\<exists>image_data mime_type source data2 mime2 source2.
               load_image gen w image_path = Inr (image_data, mime_type, source)
             \<and> load_image gen w second = Inr (data2, mime2, source2)
             \<and> generate_cache_key w source
                  (final_prompt ud prompt image_path (Some second) True silent_video)
                  aspect_ratio (Some source2) = Inr (cacheKey op)
             \<and> posted (snd (generate_video_from_image gen ud builtin_text w image_path prompt
                  aspect_ratio silent_video (Some second) True))
                = posted w @ [(submit_endpoint (video_service gen),
                    submit_payload
                      (final_prompt ud prompt image_path (Some second) True silent_video)
                      image_data mime_type aspect_ratio (Some data2) (Some mime2))]))
       \<and> (fst (generate_video_from_image gen ud builtin_text w image_path prompt aspect_ratio
                 silent_video (Some second) True) = Inr (FromCache cached) \<longrightarrow>
            (\<exists>image_data mime_type source data2 mime2 source2 cache_key.
               load_image gen w image_path = Inr (image_data, mime_type, source)
             \<and> load_image gen w second = Inr (data2, mime2, source2)
             \<and> generate_cache_key w source
                  (final_prompt ud prompt image_path (Some second) True silent_video)
                  aspect_ratio (Some source2) = Inr cache_key
             \<and> get_cached_video gen w cache_key = Some cached
             \<and> posted (snd (generate_video_from_image gen ud builtin_text w image_path prompt
                  aspect_ratio silent_video (Some second) True)) = posted w))"
proof -
  let ?fp = "final_prompt ud prompt image_path (Some second) True silent_video"
  let ?g = "generate_video_from_image gen ud builtin_text w image_path prompt aspect_ratio
              silent_video (Some second) True"
  note given = load_second_image_given [OF assms]
  have prompts: "?fp =
      (let enhanced = (if has_reference ud prompt (get_image_reference_name image_path)
                            (get_image_reference_name second) then prompt
                       else context_sentence (get_image_reference_name image_path)
                              (get_image_reference_name second) @ str_strip prompt)
       in if silent_video then str_strip enhanced @ '' silent video'' else enhanced)"
    using assms by (rule final_prompt_unfold)
  have log: "posted (snd ?g) = posted w
          \<or> (\<exists>image_data mime_type source data2 mime2 source2.
               load_image gen w image_path = Inr (image_data, mime_type, source)
             \<and> load_image gen w second = Inr (data2, mime2, source2)
             \<and> posted (snd ?g)
                = posted w @ [(submit_endpoint (video_service gen),
                    submit_payload ?fp image_data mime_type aspect_ratio (Some data2) (Some mime2))])"
  proof (cases "posted (snd ?g) = posted w")
    case True
    then show ?thesis by simp
  next
    case False
    with generate_video_from_image_posted
           [of gen ud builtin_text w image_path prompt aspect_ratio silent_video "Some second" True]
    obtain image_data mime_type source loaded where
      1: "load_image gen w image_path = Inr (image_data, mime_type, source)"
      and 2: "load_second_image gen w (Some second) = Inr loaded"
      and 4: "posted (snd ?g)
            = posted w @ [(submit_endpoint (video_service gen),
                submit_payload ?fp image_data mime_type aspect_ratio
                  (map_option (\<lambda>(d, m, s). d) loaded) (map_option (\<lambda>(d, m, s). m) loaded))]"
      by blast
    from given [OF 2] obtain data2 mime2 source2 where
      5: "load_image gen w second = Inr (data2, mime2, source2)"
      and 6: "loaded = Some (data2, mime2, source2)"
      by blast
    from 1 4 5 6 show ?thesis by auto
  qed
  have started: "\<exists>image_data mime_type source data2 mime2 source2.
               load_image gen w image_path = Inr (image_data, mime_type, source)
             \<and> load_image gen w second = Inr (data2, mime2, source2)
             \<and> generate_cache_key w source ?fp aspect_ratio (Some source2) = Inr (cacheKey op)
             \<and> posted (snd ?g)
                = posted w @ [(submit_endpoint (video_service gen),
                    submit_payload ?fp image_data mime_type aspect_ratio (Some data2) (Some mime2))]"
    if run: "fst ?g = Inr (Started op)"
  proof -
    from generate_video_from_image_started [OF run]
    obtain image_data mime_type source loaded where
      1: "load_image gen w image_path = Inr (image_data, mime_type, source)"
      and 2: "load_second_image gen w (Some second) = Inr loaded"
      and 3: "generate_cache_key w source ?fp aspect_ratio
                (map_option (\<lambda>(d, m, s). s) loaded) = Inr (cacheKey op)"
      and 4: "posted (snd ?g)
            = posted w @ [(submit_endpoint (video_service gen),
                submit_payload ?fp image_data mime_type aspect_ratio
                  (map_option (\<lambda>(d, m, s). d) loaded) (map_option (\<lambda>(d, m, s). m) loaded))]"
      by blast
    from given [OF 2] obtain data2 mime2 source2 where
      5: "load_image gen w second = Inr (data2, mime2, source2)"
      and 6: "loaded = Some (data2, mime2, source2)"
      by blast
    from 1 3 4 5 6 show ?thesis by auto
  qed
  have from_cache: "\<exists>image_data mime_type source data2 mime2 source2 cache_key.
               load_image gen w image_path = Inr (image_data, mime_type, source)
             \<and> load_image gen w second = Inr (data2, mime2, source2)
             \<and> generate_cache_key w source ?fp aspect_ratio (Some source2) = Inr cache_key
             \<and> get_cached_video gen w cache_key = Some cached
             \<and> posted (snd ?g) = posted w"
    if run: "fst ?g = Inr (FromCache cached)"
  proof -
    from generate_video_from_image_from_cache [OF run]
    obtain image_data mime_type source loaded cache_key where
      1: "load_image gen w image_path = Inr (image_data, mime_type, source)"
      and 2: "load_second_image gen w (Some second) = Inr loaded"
      and 3: "generate_cache_key w source ?fp aspect_ratio
                (map_option (\<lambda>(d, m, s). s) loaded) = Inr cache_key"
      and 4: "get_cached_video gen w cache_key = Some cached"
      and 7: "posted (snd ?g) = posted w"
      by blast
    from given [OF 2] obtain data2 mime2 source2 where
      5: "load_image gen w second = Inr (data2, mime2, source2)"
      and 6: "loaded = Some (data2, mime2, source2)"
      by blast
    from 1 3 4 5 6 7 show ?thesis by auto
  qed
  have p1: "\<not> has_reference ud prompt (get_image_reference_name image_path)
              (get_image_reference_name second) \<longrightarrow>
            ?fp = (if silent_video
               then str_strip (context_sentence (get_image_reference_name image_path)
                      (get_image_reference_name second) @ str_strip prompt) @ '' silent video''
               else context_sentence (get_image_reference_name image_path)
                      (get_image_reference_name second) @ str_strip prompt)"
    unfolding prompts by (simp add: Let_def)
  have p2: "has_reference ud prompt (get_image_reference_name image_path)
              (get_image_reference_name second) \<longrightarrow>
            ?fp = (if silent_video then str_strip prompt @ '' silent video'' else prompt)"
    unfolding prompts by (simp add: Let_def)
  from p1 p2 log started from_cache show ?thesis by blast
qed

text \<open>
  The theorem in the studio: the prompt \<open>Pan left\<close> with a trailing space, submitted and
  then served from the cache, and a prompt that names \<open>image1\<close>.
\<close>

theorem final_prompt_two_images_witness:
  "final_prompt latin1_tables ''Pan left '' ''front.jpg'' (Some ''back.png'') True False
     = ''Context: You have two images - 'front' (image1/first image) and 'back' (image2/second image). Pan left''
   \<and> final_prompt latin1_tables ''Use image1'' ''front.jpg'' (Some ''back.png'') True True
     = ''Use image1 silent video''
   \<and> generate_cache_key studio_world ''/srv/shop/pub/media/front.jpg''
        ''Context: You have two images - 'front' (image1/first image) and 'back' (image2/second image). Pan left''
        ''16:9'' (Some ''/srv/shop/pub/media/back.png'')
       = Inr ''3bcbfc2e6a6e982f5197e81c6e24f0bf''
   \<and> posted (snd (generate_video_from_image studio_generator latin1_tables (\<lambda>e. ''error'')
        studio_world ''front.jpg'' ''Pan left '' ''16:9'' False (Some ''back.png'') True))
       = [(submit_endpoint example_service,
           submit_payload
             ''Context: You have two images - 'front' (image1/first image) and 'back' (image2/second image). Pan left''
             [0x01, 0x02, 0x03] ''image/jpeg'' ''16:9'' (Some [0x04]) (Some ''image/png''))]
   \<and> get_cached_video studio_generator studio_world_cached ''3bcbfc2e6a6e982f5197e81c6e24f0bf''
       = Some \<lparr>fromCache = True,
            videoUrl = ''/pub/media/video/veo_3bcbfc2e6a6e982f5197e81c6e24f0bf.mp4'',
            videoPath = ''/srv/shop/pub/media/video/veo_3bcbfc2e6a6e982f5197e81c6e24f0bf.mp4'',
            status = ''completed''\<rparr>
   \<and> posted (snd (generate_video_from_image studio_generator latin1_tables (\<lambda>e. ''error'')
        studio_world_cached ''front.jpg'' ''Pan left '' ''16:9'' False (Some ''back.png'') True))
       = []"
proof -
  have ne: "''back.png'' \<noteq> []" by simp
  note started = final_prompt_two_images [OF ne, where ud = latin1_tables
      and prompt = "''Pan left ''" and image_path = "''front.jpg''" and silent_video = False
      and gen = studio_generator and builtin_text = "\<lambda>e. ''error''" and w = studio_world
      and aspect_ratio = "''16:9''"
      and op = "\<lparr>operationName = JStr ''operations/op1'',
                 cacheKey = ''3bcbfc2e6a6e982f5197e81c6e24f0bf'',
                 op_done = JBool False, op_status = ''running''\<rparr>"]
  note cached = final_prompt_two_images [OF ne, where ud = latin1_tables
      and prompt = "''Pan left ''" and image_path = "''front.jpg''" and silent_video = False
      and gen = studio_generator and builtin_text = "\<lambda>e. ''error''" and w = studio_world_cached
      and aspect_ratio = "''16:9''"
      and cached = "\<lparr>fromCache = True,
            videoUrl = ''/pub/media/video/veo_3bcbfc2e6a6e982f5197e81c6e24f0bf.mp4'',
            videoPath = ''/srv/shop/pub/media/video/veo_3bcbfc2e6a6e982f5197e81c6e24f0bf.mp4'',
            status = ''completed''\<rparr>"]
  note named = final_prompt_two_images [OF ne, where ud = latin1_tables
      and prompt = "''Use image1''" and image_path = "''front.jpg''" and silent_video = True]
  from started have fp1:
    "final_prompt latin1_tables ''Pan left '' ''front.jpg'' (Some ''back.png'') True False
       = context_sentence ''front'' ''back'' @ ''Pan left''"
    by (simp add: studio_names studio_prompts studio_strips)
  from named have fp2:
    "final_prompt latin1_tables ''Use image1'' ''front.jpg'' (Some ''back.png'') True True
       = ''Use image1 silent video''"
    by (simp add: studio_names studio_prompts studio_strips)
  from started studio_run have run1:
    "generate_cache_key studio_world ''/srv/shop/pub/media/front.jpg''
        (final_prompt latin1_tables ''Pan left '' ''front.jpg'' (Some ''back.png'') True False)
        ''16:9'' (Some ''/srv/shop/pub/media/back.png'')
       = Inr ''3bcbfc2e6a6e982f5197e81c6e24f0bf''
     \<and> posted (snd (generate_video_from_image studio_generator latin1_tables (\<lambda>e. ''error'')
          studio_world ''front.jpg'' ''Pan left '' ''16:9'' False (Some ''back.png'') True))
       = posted studio_world @ [(submit_endpoint (video_service studio_generator),
           submit_payload
             (final_prompt latin1_tables ''Pan left '' ''front.jpg'' (Some ''back.png'') True False)
             [0x01, 0x02, 0x03] ''image/jpeg'' ''16:9'' (Some [0x04]) (Some ''image/png''))]"
    unfolding studio_loads by simp
  from cached studio_cached_run have run2:
    "get_cached_video studio_generator studio_world_cached ''3bcbfc2e6a6e982f5197e81c6e24f0bf''
       = Some \<lparr>fromCache = True,
            videoUrl = ''/pub/media/video/veo_3bcbfc2e6a6e982f5197e81c6e24f0bf.mp4'',
            videoPath = ''/srv/shop/pub/media/video/veo_3bcbfc2e6a6e982f5197e81c6e24f0bf.mp4'',
            status = ''completed''\<rparr>
     \<and> posted (snd (generate_video_from_image studio_generator latin1_tables (\<lambda>e. ''error'')
          studio_world_cached ''front.jpg'' ''Pan left '' ''16:9'' False (Some ''back.png'') True))
       = posted studio_world_cached"
    unfolding studio_loads by (simp add: studio_prompt studio_keys)
  from fp1 fp2 run1 run2 show ?thesis
    by (simp add: studio_fields context_sentence_def)
qed



end
